theory Spec2Isabelle
  imports Complex_Main "HOL-Library.AList" "HOL-Library.Multiset" "HOL-Library.Sublist"
begin

section \<open>Python values\<close>

text \<open>
  A Python \<open>str\<close> is a sequence of Unicode code points: \<open>len\<close> and slicing count code
  points, so a string is a list of naturals. ASCII literals are written through
  \<open>pystr_of\<close>; the symbols outside ASCII that the source prints are given by their code
  point.
\<close>

type_synonym pystr = "nat list"

definition pystr_of :: "string \<Rightarrow> pystr" where
  "pystr_of s = map of_char s"

text \<open>JSON values as Python holds them; a \<open>dict\<close> keeps insertion order, and assigning to a
  key that is present keeps its position (\<open>AList.update\<close>).\<close>

datatype jval =
    JNull
  | JBool bool
  | JNum real
  | JStr pystr
  | JArr "jval list"
  | JObj "(pystr \<times> jval) list"

type_synonym dict = "(pystr \<times> jval) list"

text \<open>Python truth value of a JSON value (\<open>not v\<close> is its negation).\<close>

fun truthy :: "jval \<Rightarrow> bool" where
  "truthy JNull = False"
| "truthy (JBool b) = b"
| "truthy (JNum x) = (x \<noteq> 0)"
| "truthy (JStr s) = (s \<noteq> [])"
| "truthy (JArr xs) = (xs \<noteq> [])"
| "truthy (JObj kvs) = (kvs \<noteq> [])"

text \<open>\<open>d.get(k, default)\<close>.\<close>

definition dict_get :: "dict \<Rightarrow> pystr \<Rightarrow> jval \<Rightarrow> jval" where
  "dict_get d k dflt = (case map_of d k of None \<Rightarrow> dflt | Some v \<Rightarrow> v)"

text \<open>An exception, carrying the text that \<open>str(e)\<close> gives.\<close>

datatype exn = Exn pystr

fun str_exn :: "exn \<Rightarrow> pystr" where
  "str_exn (Exn m) = m"

text \<open>\<open>str(n)\<close> of a non-negative integer, as an f-string prints it.\<close>

fun str_nat :: "nat \<Rightarrow> pystr" where
  "str_nat n = (if n < 10 then [48 + n] else str_nat (n div 10) @ [48 + n mod 10])"

text \<open>\<open>str.isspace\<close> on one code point, and \<open>str.strip()\<close>.\<close>

definition py_isspace :: "nat \<Rightarrow> bool" where
  "py_isspace c \<longleftrightarrow>
     (9 \<le> c \<and> c \<le> 13) \<or> (28 \<le> c \<and> c \<le> 32) \<or> c = 133 \<or> c = 160 \<or> c = 5760 \<or>
     (8192 \<le> c \<and> c \<le> 8202) \<or> c = 8232 \<or> c = 8233 \<or> c = 8239 \<or> c = 8287 \<or> c = 12288"

definition strip :: "pystr \<Rightarrow> pystr" where
  "strip s = rev (dropWhile py_isspace (rev (dropWhile py_isspace s)))"

text \<open>\<open>s.replace('\n', ' ')\<close>.\<close>

definition replace_newlines :: "pystr \<Rightarrow> pystr" where
  "replace_newlines s = map (\<lambda>c. if c = 10 then 32 else c) s"

definition k_text :: pystr where "k_text = pystr_of ''text''"
definition k_timestamp :: pystr where "k_timestamp = pystr_of ''timestamp''"
definition k_source :: pystr where "k_source = pystr_of ''source''"
definition k_query :: pystr where "k_query = pystr_of ''query''"
definition k_metadata :: pystr where "k_metadata = pystr_of ''metadata''"

section \<open>The external collaborators\<close>

text \<open>
  OCR, the embedding model, the Qdrant service, the LangChain chain and the language model
  are libraries and services outside the repository. What they answer is a parameter of
  the model (\<open>env\<close>); what they hold is part of the \<open>world\<close>.
\<close>

type_synonym vec = "real list"
type_synonym image = "nat list"

datatype distance = COSINE | EUCLID | DOT | MANHATTAN

text \<open>How near a stored vector is to the query vector under a collection's metric, a larger
  score being nearer: the cosine of the angle, the dot product, and for the two distances
  the negated distance. Scores are real numbers here, not floating-point ones.\<close>

definition dot :: "vec \<Rightarrow> vec \<Rightarrow> real" where
  "dot a b = sum_list (map2 (*) a b)"

definition cosine :: "vec \<Rightarrow> vec \<Rightarrow> real" where
  "cosine a b = dot a b / (sqrt (dot a a) * sqrt (dot b b))"

fun score :: "distance \<Rightarrow> vec \<Rightarrow> vec \<Rightarrow> real" where
  "score COSINE a b = cosine a b"
| "score DOT a b = dot a b"
| "score EUCLID a b = - sqrt (sum_list (map2 (\<lambda>x y. (x - y) ^ 2) a b))"
| "score MANHATTAN a b = - sum_list (map2 (\<lambda>x y. \<bar>x - y\<bar>) a b)"

record vector_params =
  vp_size :: nat
  vp_distance :: distance

text \<open>A Qdrant collection: its vector configuration and its points by id. The service is
  an association list from collection names to collections.\<close>

record collection =
  vectors_config :: vector_params
  stored_points :: "(pystr \<times> vec \<times> dict) list"

type_synonym qdrant = "(pystr \<times> collection) list"

datatype collection_status = GREEN | YELLOW | RED

record collection_info =
  points_count :: nat
  vectors_count :: nat
  info_status :: collection_status

text \<open>The objects of the model libraries: \<open>SentenceTransformer\<close>, \<open>OllamaLLM\<close>,
  \<open>HuggingFaceEmbeddings\<close>.\<close>

record sentence_transformer =
  sentence_embedding_dimension :: nat
  encode :: "pystr \<Rightarrow> vec"

record ollama_llm =
  model_name :: pystr

record hf_embeddings =
  embed_query :: "pystr \<Rightarrow> vec"

text \<open>A chat turn, and the web chat UI object (\<open>WebChatUI\<close>) with its own history.\<close>

record chat_turn =
  role :: pystr
  content :: jval

record web_chat_ui =
  port :: nat
  is_running :: bool
  ui_chat_history :: "chat_turn list"

record env =
  uuid4_seq :: "nat \<Rightarrow> pystr"
  now_seq :: "nat \<Rightarrow> pystr"
  screenshot_seq :: "nat \<Rightarrow> exn + image"
  image_to_string :: "image \<Rightarrow> exn + pystr"
  llm_reply :: "nat \<Rightarrow> pystr \<Rightarrow> exn + pystr"
  prompt_template :: "pystr \<Rightarrow> pystr \<Rightarrow> pystr"
  pointstruct_copies :: bool
  load_sentence_transformer :: "exn + sentence_transformer"
  load_llm :: "exn + ollama_llm"
  load_embeddings :: "exn + hf_embeddings"
  load_web_ui :: "exn + web_chat_ui"

text \<open>
  \<open>uuid4_seq env k\<close> is what the \<open>k\<close>-th call of \<open>str(uuid.uuid4())\<close> returns, \<open>now_seq env k\<close>
  what the \<open>k\<close>-th \<open>datetime.now().isoformat()\<close> returns, \<open>screenshot_seq env k\<close> the \<open>k\<close>-th
  screenshot (or the exception \<open>pyautogui\<close> raises), \<open>llm_reply env k p\<close> the model's answer
  to prompt \<open>p\<close> at its \<open>k\<close>-th call. \<open>pointstruct_copies\<close> says whether the \<open>PointStruct\<close>
  constructor keeps its own copy of the payload dictionary or a reference to the caller's.
  The \<open>load_\<close> fields are what constructing \<open>SentenceTransformer\<close>, \<open>OllamaLLM\<close> and
  \<open>HuggingFaceEmbeddings\<close>, and constructing and starting \<open>WebChatUI\<close>, gives in this
  process: the object, or the exception raised.

  The world counts the calls made so far, holds the Qdrant service, and holds the
  dictionaries that the adapter mutates in place, by address.
\<close>

record world =
  qdrant :: qdrant
  heap :: "nat \<Rightarrow> dict"
  heap_next :: nat
  uuid_drawn :: nat
  clock_read :: nat
  screenshots :: nat
  llm_calls :: nat

definition uuid4 :: "env \<Rightarrow> world \<Rightarrow> pystr \<times> world" where
  "uuid4 env w = (uuid4_seq env (uuid_drawn w), w\<lparr>uuid_drawn := Suc (uuid_drawn w)\<rparr>)"

definition datetime_now :: "env \<Rightarrow> world \<Rightarrow> pystr \<times> world" where
  "datetime_now env w = (now_seq env (clock_read w), w\<lparr>clock_read := Suc (clock_read w)\<rparr>)"

text \<open>Evaluating a dictionary display (\<open>{}\<close>, \<open>{"source": ...}\<close>) allocates a new object.\<close>

definition new_dict :: "dict \<Rightarrow> world \<Rightarrow> nat \<times> world" where
  "new_dict d w =
     (heap_next w, w\<lparr>heap := (heap w)(heap_next w := d), heap_next := Suc (heap_next w)\<rparr>)"

definition dict_set :: "nat \<Rightarrow> pystr \<Rightarrow> jval \<Rightarrow> world \<Rightarrow> world" where
  "dict_set a k v w = w\<lparr>heap := (heap w)(a := AList.update k v (heap w a))\<rparr>"

subsection \<open>The Qdrant client\<close>

definition get_collections :: "qdrant \<Rightarrow> pystr list" where
  "get_collections q = map fst q"

definition create_collection :: "pystr \<Rightarrow> vector_params \<Rightarrow> qdrant \<Rightarrow> exn + qdrant" where
  "create_collection name vp q =
     (if name \<in> set (map fst q) then Inl (Exn (pystr_of ''Collection already exists''))
      else Inr (q @ [(name, \<lparr>vectors_config = vp, stored_points = []\<rparr>)]))"

definition client_delete_collection :: "pystr \<Rightarrow> qdrant \<Rightarrow> qdrant" where
  "client_delete_collection name q = AList.delete name q"

text \<open>\<open>upsert\<close>: each point is inserted, or overwrites the point with its id. The service
  refuses an unknown collection and a vector of the wrong size.\<close>

definition upsert_points ::
  "(pystr \<times> vec \<times> dict) list \<Rightarrow> (pystr \<times> vec \<times> dict) list \<Rightarrow> (pystr \<times> vec \<times> dict) list" where
  "upsert_points new old = foldl (\<lambda>acc p. AList.update (fst p) (snd p) acc) old new"

definition upsert :: "pystr \<Rightarrow> (pystr \<times> vec \<times> dict) list \<Rightarrow> qdrant \<Rightarrow> exn + qdrant" where
  "upsert name pts q =
     (case map_of q name of
        None \<Rightarrow> Inl (Exn (pystr_of ''Collection not found''))
      | Some c \<Rightarrow>
          if list_ex (\<lambda>p. length (fst (snd p)) \<noteq> vp_size (vectors_config c)) pts
          then Inl (Exn (pystr_of ''Vector dimension error''))
          else Inr (AList.update name (c\<lparr>stored_points := upsert_points pts (stored_points c)\<rparr>) q))"

definition get_collection :: "pystr \<Rightarrow> qdrant \<Rightarrow> exn + collection_info" where
  "get_collection name q =
     (case map_of q name of
        None \<Rightarrow> Inl (Exn (pystr_of ''Collection not found''))
      | Some c \<Rightarrow>
          Inr \<lparr>points_count = length (stored_points c),
               vectors_count = length (stored_points c),
               info_status = GREEN\<rparr>)"

text \<open>Nearest-neighbour search: the stored points by decreasing score under the
  collection's metric, the first \<open>limit\<close> of them, each with its score.\<close>

definition client_search ::
  "pystr \<Rightarrow> vec \<Rightarrow> nat \<Rightarrow> qdrant \<Rightarrow> exn + (real \<times> pystr \<times> vec \<times> dict) list" where
  "client_search name qv limit q =
     (case map_of q name of
        None \<Rightarrow> Inl (Exn (pystr_of ''Collection not found''))
      | Some c \<Rightarrow>
          Inr (take limit
                 (sort_key (\<lambda>sp. - fst sp)
                    (map (\<lambda>p. (score (vp_distance (vectors_config c)) qv (fst (snd p)), p))
                       (stored_points c)))))"

section \<open>ocr.py\<close>

definition capture_screenshot :: "env \<Rightarrow> world \<Rightarrow> (exn + image) \<times> world" where
  "capture_screenshot env w =
     (screenshot_seq env (screenshots w), w\<lparr>screenshots := Suc (screenshots w)\<rparr>)"

definition extract_text_from_image :: "env \<Rightarrow> image \<Rightarrow> exn + pystr" where
  "extract_text_from_image env img = image_to_string env img"

definition capture_and_extract :: "env \<Rightarrow> world \<Rightarrow> (exn + pystr) \<times> world" where
  "capture_and_extract env w =
     (case capture_screenshot env w of
        (Inl e, w1) \<Rightarrow> (Inl e, w1)
      | (Inr img, w1) \<Rightarrow> (extract_text_from_image env img, w1))"

section \<open>vector\_db.py\<close>

text \<open>The \<open>VectorDatabase\<close> object. Its \<open>client\<close> is the connection to the Qdrant service
  of the world.\<close>

record vector_database =
  collection_name :: pystr
  embedding_model :: sentence_transformer
  embedding_dim :: nat

definition create_collection_if_not_exists ::
  "vector_database \<Rightarrow> world \<Rightarrow> (exn + unit) \<times> world" where
  "create_collection_if_not_exists db w =
     (let collection_names = get_collections (qdrant w) in
      if collection_name db \<notin> set collection_names then
        (case create_collection (collection_name db)
                \<lparr>vp_size = embedding_dim db, vp_distance = COSINE\<rparr> (qdrant w) of
           Inl e \<Rightarrow> (Inl e, w)
         | Inr q \<Rightarrow> (Inr (), w\<lparr>qdrant := q\<rparr>))
      else (Inr (), w))"

text \<open>\<open>VectorDatabase.__init__\<close>; loading the embedding model may raise.\<close>

definition VectorDatabase ::
  "(exn + sentence_transformer) \<Rightarrow> pystr \<Rightarrow> world \<Rightarrow> (exn + vector_database) \<times> world" where
  "VectorDatabase loaded name w =
     (case loaded of
        Inl e \<Rightarrow> (Inl e, w)
      | Inr m \<Rightarrow>
          (let db = \<lparr>collection_name = name, embedding_model = m,
                     embedding_dim = sentence_embedding_dimension m\<rparr>
           in case create_collection_if_not_exists db w of
                (Inl e, w1) \<Rightarrow> (Inl e, w1)
              | (Inr u, w1) \<Rightarrow> (Inr db, w1)))"

text \<open>A \<open>PointStruct\<close> holds its payload by reference or as its own copy; the client reads
  the payload when \<open>upsert\<close> sends the point.\<close>

datatype payload_field = Shared nat | Snapshot dict

record point_struct =
  ps_id :: pystr
  ps_vector :: vec
  ps_payload :: payload_field

definition PointStruct :: "env \<Rightarrow> pystr \<Rightarrow> vec \<Rightarrow> nat \<Rightarrow> world \<Rightarrow> point_struct" where
  "PointStruct env i v m w =
     \<lparr>ps_id = i, ps_vector = v,
      ps_payload = (if pointstruct_copies env then Snapshot (heap w m) else Shared m)\<rparr>"

definition sent_point :: "world \<Rightarrow> point_struct \<Rightarrow> pystr \<times> vec \<times> dict" where
  "sent_point w p =
     (ps_id p, ps_vector p,
      (case ps_payload p of Shared a \<Rightarrow> heap w a | Snapshot d \<Rightarrow> d))"

definition client_upsert ::
  "vector_database \<Rightarrow> point_struct list \<Rightarrow> world \<Rightarrow> (exn + unit) \<times> world" where
  "client_upsert db pts w =
     (case upsert (collection_name db) (map (sent_point w) pts) (qdrant w) of
        Inl e \<Rightarrow> (Inl e, w)
      | Inr q \<Rightarrow> (Inr (), w\<lparr>qdrant := q\<rparr>))"

text \<open>\<open>add_text(text, metadata=None)\<close>: \<open>metadata\<close> is \<open>None\<close> or the address of the caller's
  dictionary, which the method changes in place.\<close>

definition add_text ::
  "env \<Rightarrow> vector_database \<Rightarrow> pystr \<Rightarrow> nat option \<Rightarrow> world \<Rightarrow> (exn + pystr) \<times> world" where
  "add_text env db txt metadata w =
     (let embedding = encode (embedding_model db) txt;
          (point_id, w1) = uuid4 env w;
          (md, w2) = (case metadata of None \<Rightarrow> new_dict [] w1 | Some a \<Rightarrow> (a, w1));
          w3 = (if k_timestamp \<notin> set (map fst (heap w2 md))
                then (let (now, wn) = datetime_now env w2
                      in dict_set md k_timestamp (JStr now) wn)
                else w2);
          w4 = dict_set md k_text (JStr txt) w3
      in case client_upsert db [PointStruct env point_id embedding md w4] w4 of
           (Inl e, w5) \<Rightarrow> (Inl e, w5)
         | (Inr u, w5) \<Rightarrow> (Inr point_id, w5))"

text \<open>The loop of \<open>add_texts_batch\<close> over \<open>zip(texts, embeddings, metadatas)\<close>; the default
  argument of \<open>metadata.get\<close> is evaluated before the call, so the clock is read in every
  round.\<close>

fun batch_points ::
  "env \<Rightarrow> (pystr \<times> vec \<times> nat) list \<Rightarrow> point_struct list \<Rightarrow> world \<Rightarrow> point_struct list \<times> world" where
  "batch_points env [] points w = (points, w)"
| "batch_points env ((txt, embedding, md) # rest) points w =
     (let (point_id, w1) = uuid4 env w;
          (now, w2) = datetime_now env w1;
          w3 = dict_set md k_timestamp (dict_get (heap w2 md) k_timestamp (JStr now)) w2;
          w4 = dict_set md k_text (JStr txt) w3
      in batch_points env rest (points @ [PointStruct env point_id embedding md w4]) w4)"

text \<open>\<open>add_texts_batch(texts, metadatas=None)\<close>: \<open>[{}] * len(texts)\<close> evaluates \<open>{}\<close> once and
  repeats the reference.\<close>

definition add_texts_batch ::
  "env \<Rightarrow> vector_database \<Rightarrow> pystr list \<Rightarrow> nat list option \<Rightarrow> world \<Rightarrow>
     (exn + pystr list) \<times> world" where
  "add_texts_batch env db texts metadatas w =
     (let (mds, w1) = (case metadatas of
                         None \<Rightarrow> (let (a, wa) = new_dict [] w in (replicate (length texts) a, wa))
                       | Some ms \<Rightarrow> (ms, w));
          embeddings = map (encode (embedding_model db)) texts;
          (points, w2) = batch_points env (zip texts (zip embeddings mds)) [] w1
      in case client_upsert db points w2 of
           (Inl e, w3) \<Rightarrow> (Inl e, w3)
         | (Inr u, w3) \<Rightarrow> (Inr (map ps_id points), w3))"

definition search ::
  "vector_database \<Rightarrow> pystr \<Rightarrow> nat \<Rightarrow> world \<Rightarrow> exn + (real \<times> pystr \<times> vec \<times> dict) list" where
  "search db query limit w =
     (let query_embedding = encode (embedding_model db) query
      in client_search (collection_name db) query_embedding limit (qdrant w))"

record stats =
  total_points :: nat
  stats_vectors_count :: nat
  stats_status :: collection_status

definition get_stats :: "vector_database \<Rightarrow> world \<Rightarrow> exn + stats" where
  "get_stats db w =
     (case get_collection (collection_name db) (qdrant w) of
        Inl e \<Rightarrow> Inl e
      | Inr collection_info \<Rightarrow>
          Inr \<lparr>total_points = points_count collection_info,
               stats_vectors_count = vectors_count collection_info,
               stats_status = info_status collection_info\<rparr>)"

definition delete_collection :: "vector_database \<Rightarrow> world \<Rightarrow> world" where
  "delete_collection db w =
     w\<lparr>qdrant := client_delete_collection (collection_name db) (qdrant w)\<rparr>"

section \<open>The LangChain retrieval chain\<close>

text \<open>
  \<open>Qdrant(client, collection_name, embeddings, content_payload_key)\<close>, its retriever
  \<open>as_retriever(search_kwargs={"k": k})\<close> and \<open>RetrievalQA.from_chain_type(llm, retriever,
  return_source_documents)\<close> are LangChain objects. The chain embeds the question, asks
  the collection for the \<open>k\<close> nearest points, turns each into a document (the payload entry
  under the content key as its text), fills the prompt with the texts and the question,
  and calls the language model once.
\<close>

record document =
  page_content :: pystr
  doc_metadata :: dict

record qdrant_vector_store =
  vs_collection_name :: pystr
  vs_embeddings :: hf_embeddings
  content_payload_key :: pystr

record vector_store_retriever =
  vectorstore :: qdrant_vector_store
  search_k :: nat

record retrieval_qa =
  chain_llm :: ollama_llm
  chain_retriever :: vector_store_retriever
  return_source_documents :: bool

record qa_response =
  qa_result :: pystr
  source_documents :: "document list option"

fun collect :: "('e + 'a) list \<Rightarrow> 'e + 'a list" where
  "collect [] = Inr []"
| "collect (x # xs) =
     (case x of
        Inl e \<Rightarrow> Inl e
      | Inr v \<Rightarrow> (case collect xs of Inl e \<Rightarrow> Inl e | Inr vs \<Rightarrow> Inr (v # vs)))"

text \<open>
  The document of a hit. The metadata is the payload entry \<open>metadata\<close>, or an empty
  dictionary when that entry is missing or counts as false; the id and the collection name
  are then stored into it, which raises when the entry is neither. The text is the payload
  entry under the content key; the document is refused when that is not a string (a
  missing entry is \<open>None\<close>).
\<close>

definition document_from_scored_point ::
  "qdrant_vector_store \<Rightarrow> real \<times> pystr \<times> vec \<times> dict \<Rightarrow> exn + document" where
  "document_from_scored_point vs sp =
     (let point_id = fst (snd sp);
          payload = snd (snd (snd sp));
          held = dict_get payload k_metadata JNull
      in case (if truthy held then held else JObj []) of
           JObj metadata \<Rightarrow>
             (let metadata1 = AList.update (pystr_of ''_id'') (JStr point_id) metadata;
                  metadata2 = AList.update (pystr_of ''_collection_name'')
                                (JStr (vs_collection_name vs)) metadata1
              in case dict_get payload (content_payload_key vs) JNull of
                   JStr s \<Rightarrow> Inr \<lparr>page_content = s, doc_metadata = metadata2\<rparr>
                 | _ \<Rightarrow> Inl (Exn (pystr_of ''page_content: str type expected'')))
         | _ \<Rightarrow> Inl (Exn (pystr_of ''object does not support item assignment'')))"

definition get_relevant_documents ::
  "vector_store_retriever \<Rightarrow> pystr \<Rightarrow> world \<Rightarrow> exn + document list" where
  "get_relevant_documents r question w =
     (let vs = vectorstore r
      in case client_search (vs_collection_name vs)
                (embed_query (vs_embeddings vs) question) (search_k r) (qdrant w) of
           Inl e \<Rightarrow> Inl e
         | Inr hits \<Rightarrow> collect (map (document_from_scored_point vs) hits))"

definition join_contents :: "document list \<Rightarrow> pystr" where
  "join_contents docs = concat (map (\<lambda>d. page_content d @ [10, 10]) (butlast docs))
                        @ (case docs of [] \<Rightarrow> [] | _ \<Rightarrow> page_content (last docs))"

text \<open>\<open>chain.invoke({"query": q})\<close>: the world counts the call of the language model.\<close>

definition qa_invoke ::
  "env \<Rightarrow> retrieval_qa \<Rightarrow> jval \<Rightarrow> world \<Rightarrow> (exn + qa_response) \<times> world" where
  "qa_invoke env chain q w =
     (case q of
        JStr question \<Rightarrow>
          (case get_relevant_documents (chain_retriever chain) question w of
             Inl e \<Rightarrow> (Inl e, w)
           | Inr docs \<Rightarrow>
               (let prompt = prompt_template env (join_contents docs) question;
                    w1 = w\<lparr>llm_calls := Suc (llm_calls w)\<rparr>
                in case llm_reply env (llm_calls w) prompt of
                     Inl e \<Rightarrow> (Inl e, w1)
                   | Inr answer \<Rightarrow>
                       (Inr \<lparr>qa_result = answer,
                             source_documents =
                               (if return_source_documents chain then Some docs else None)\<rparr>,
                        w1)))
      | _ \<Rightarrow> (Inl (Exn (pystr_of ''query: str type expected'')), w))"

section \<open>api\_backend.py\<close>

record init_status =
  ready :: bool
  message :: pystr

record response =
  status_code :: nat
  json :: dict

text \<open>The module's globals, and the world the process runs in.\<close>

record api_state =
  vector_db :: "vector_database option"
  llm :: "ollama_llm option"
  qa_chain :: "retrieval_qa option"
  embeddings :: "hf_embeddings option"
  initialization_status :: init_status
  chat_history :: "chat_turn list"
  api_world :: world

definition initial_state :: "world \<Rightarrow> api_state" where
  "initial_state w =
     \<lparr>vector_db = None, llm = None, qa_chain = None, embeddings = None,
      initialization_status = \<lparr>ready = False, message = pystr_of ''Initializing...''\<rparr>,
      chat_history = [], api_world = w\<rparr>"

definition book_knowledge :: pystr where
  "book_knowledge = pystr_of ''book_knowledge''"

definition ready_message :: pystr where
  "ready_message = pystr_of ''All systems ready! '' @ [127881]"

text \<open>The \<open>except\<close> branch of \<open>initialize_components\<close>.\<close>

definition init_failed :: "exn \<Rightarrow> api_state \<Rightarrow> api_state" where
  "init_failed e s =
     s\<lparr>initialization_status := \<lparr>ready = False, message = pystr_of ''Error: '' @ str_exn e\<rparr>\<rparr>"

text \<open>\<open>initialize_components\<close>. The constructors that load a model or reach a service
  may raise; the LangChain wrappers built from them only assemble the objects.\<close>

definition initialize_components :: "env \<Rightarrow> api_state \<Rightarrow> api_state" where
  "initialize_components env s =
     (case VectorDatabase (load_sentence_transformer env) book_knowledge (api_world s) of
        (Inl e, w1) \<Rightarrow> init_failed e (s\<lparr>api_world := w1\<rparr>)
      | (Inr db, w1) \<Rightarrow>
          (let s1 = s\<lparr>vector_db := Some db, api_world := w1\<rparr>
           in case load_llm env of
                Inl e \<Rightarrow> init_failed e s1
              | Inr l \<Rightarrow>
                  (let s2 = s1\<lparr>llm := Some l\<rparr>
                   in case load_embeddings env of
                        Inl e \<Rightarrow> init_failed e s2
                      | Inr em \<Rightarrow>
                          (let s3 = s2\<lparr>embeddings := Some em\<rparr>;
                               vector_store = \<lparr>vs_collection_name = book_knowledge,
                                               vs_embeddings = em,
                                               content_payload_key = k_text\<rparr>;
                               retriever = \<lparr>vectorstore = vector_store, search_k = 3\<rparr>;
                               s4 = s3\<lparr>qa_chain := Some \<lparr>chain_llm = l,
                                                         chain_retriever = retriever,
                                                         return_source_documents = True\<rparr>\<rparr>
                           in s4\<lparr>initialization_status :=
                                   \<lparr>ready = True, message = ready_message\<rparr>\<rparr>))))"

definition health_check :: "api_state \<Rightarrow> response" where
  "health_check s =
     \<lparr>status_code = 200,
      json = [(pystr_of ''status'', JStr (pystr_of ''ok'')),
              (pystr_of ''initialized'', JBool (ready (initialization_status s))),
              (pystr_of ''message'', JStr (message (initialization_status s)))]\<rparr>"

text \<open>The source entries of a query's answer: \<open>source_documents[:2]\<close>, each with
  \<open>page_content[:150]\<close> and its metadata.\<close>

definition source_entry :: "document \<Rightarrow> jval" where
  "source_entry doc =
     JObj [(pystr_of ''content'', JStr (take 150 (page_content doc))),
           (k_metadata, JObj (doc_metadata doc))]"

definition format_sources :: "qa_response \<Rightarrow> jval list" where
  "format_sources response =
     (case source_documents response of
        None \<Rightarrow> []
      | Some docs \<Rightarrow> if docs = [] then [] else map source_entry (take 2 docs))"

definition error_response :: "nat \<Rightarrow> exn \<Rightarrow> response" where
  "error_response code e =
     \<lparr>status_code = code,
      json = [(pystr_of ''error'', JStr (str_exn e)), (pystr_of ''success'', JBool False)]\<rparr>"

text \<open>
  A view function returns a response or lets an exception escape; Flask answers an escaped
  exception with an error page of its own: the status of an HTTP exception, and 500 for
  any other.
\<close>

datatype json_refusal = BadRequest | UnsupportedMediaType

datatype uncaught = AttributeError | Refused json_refusal

fun http_status :: "uncaught + response \<Rightarrow> nat" where
  "http_status (Inl AttributeError) = 500"
| "http_status (Inl (Refused BadRequest)) = 400"
| "http_status (Inl (Refused UnsupportedMediaType)) = 415"
| "http_status (Inr r) = status_code r"

text \<open>
  \<open>POST /api/query\<close>. \<open>request_json\<close> is what \<open>request.json\<close> gives for the request: the parsed
  body, any JSON value, or the HTTP exception with which Flask refuses a body that is not
  JSON (400 for malformed JSON, 415 for another content type). The body is read, and
  \<open>data.get\<close> called on it, before the \<open>try\<close>; \<open>get\<close> is a method of dictionaries only.
\<close>

definition query ::
  "env \<Rightarrow> json_refusal + jval \<Rightarrow> api_state \<Rightarrow> (uncaught + response) \<times> api_state" where
  "query env request_json s =
     (if \<not> ready (initialization_status s) then
        (Inr \<lparr>status_code = 503,
              json = [(pystr_of ''error'', JStr (pystr_of ''System not ready yet'')),
                      (pystr_of ''message'', JStr (message (initialization_status s)))]\<rparr>, s)
      else
        (case request_json of
           Inl refusal \<Rightarrow> (Inl (Refused refusal), s)
         | Inr body \<Rightarrow>
             (case body of
                JObj data \<Rightarrow>
                  (let user_query = dict_get data k_query (JStr []) in
                   if \<not> truthy user_query then
                     (Inr \<lparr>status_code = 400,
                           json = [(pystr_of ''error'',
                                    JStr (pystr_of ''No query provided''))]\<rparr>, s)
                   else
                     (case qa_chain s of
                        None \<Rightarrow>
                          (Inr (error_response 500
                                  (Exn ([39] @ pystr_of ''NoneType'' @ [39]
                                        @ pystr_of '' object has no attribute '' @ [39]
                                        @ pystr_of ''invoke'' @ [39]))), s)
                      | Some chain \<Rightarrow>
                          (case qa_invoke env chain user_query (api_world s) of
                             (Inl e, w1) \<Rightarrow> (Inr (error_response 500 e), s\<lparr>api_world := w1\<rparr>)
                           | (Inr response, w1) \<Rightarrow>
                               (let answer = qa_result response;
                                    sources = format_sources response;
                                    s1 = s\<lparr>api_world := w1,
                                           chat_history := chat_history s
                                             @ [\<lparr>role = pystr_of ''user'',
                                                 content = user_query\<rparr>,
                                                \<lparr>role = pystr_of ''assistant'',
                                                 content = JStr answer\<rparr>]\<rparr>
                                in (Inr \<lparr>status_code = 200,
                                         json = [(pystr_of ''response'', JStr answer),
                                                 (pystr_of ''sources'', JArr sources),
                                                 (pystr_of ''success'', JBool True)]\<rparr>,
                                    s1)))))
              | _ \<Rightarrow> (Inl AttributeError, s))))"

definition not_ready_response :: response where
  "not_ready_response =
     \<lparr>status_code = 503,
      json = [(pystr_of ''error'', JStr (pystr_of ''Vector database not ready''))]\<rparr>"

text \<open>\<open>POST /api/capture/full\<close>.\<close>

definition capture_full_screen :: "env \<Rightarrow> api_state \<Rightarrow> response \<times> api_state" where
  "capture_full_screen env s =
     (case vector_db s of
        None \<Rightarrow> (not_ready_response, s)
      | Some db \<Rightarrow>
          (case capture_and_extract env (api_world s) of
             (Inl e, w1) \<Rightarrow>
               (\<lparr>status_code = 500,
                 json = [(pystr_of ''success'', JBool False),
                         (pystr_of ''error'', JStr (str_exn e))]\<rparr>, s\<lparr>api_world := w1\<rparr>)
           | (Inr txt, w1) \<Rightarrow>
               if txt = [] \<or> length (strip txt) < 10 then
                 (\<lparr>status_code = 200,
                   json = [(pystr_of ''success'', JBool False),
                           (pystr_of ''message'', JStr (pystr_of ''No meaningful text found''))]\<rparr>,
                  s\<lparr>api_world := w1\<rparr>)
               else
                 (let (md, w2) = new_dict [(k_source, JStr (pystr_of ''screenshot_full''))] w1
                  in case add_text env db txt (Some md) w2 of
                       (Inl e, w3) \<Rightarrow>
                         (\<lparr>status_code = 500,
                           json = [(pystr_of ''success'', JBool False),
                                   (pystr_of ''error'', JStr (str_exn e))]\<rparr>,
                          s\<lparr>api_world := w3\<rparr>)
                     | (Inr point_id, w3) \<Rightarrow>
                         (\<lparr>status_code = 200,
                           json = [(pystr_of ''success'', JBool True),
                                   (pystr_of ''message'',
                                    JStr (pystr_of ''Captured '' @ str_nat (length txt)
                                          @ pystr_of '' characters'')),
                                   (pystr_of ''text_length'', JNum (real (length txt)))]\<rparr>,
                          s\<lparr>api_world := w3\<rparr>))))"

definition jstats :: "stats \<Rightarrow> jval" where
  "jstats st =
     JObj [(pystr_of ''total_points'', JNum (real (total_points st))),
           (pystr_of ''vectors_count'', JNum (real (stats_vectors_count st))),
           (pystr_of ''status'',
            JStr (case stats_status st of GREEN \<Rightarrow> pystr_of ''green''
                  | YELLOW \<Rightarrow> pystr_of ''yellow'' | RED \<Rightarrow> pystr_of ''red''))]"

text \<open>\<open>GET /api/stats\<close>.\<close>

definition api_get_stats :: "api_state \<Rightarrow> response" where
  "api_get_stats s =
     (case vector_db s of
        None \<Rightarrow> not_ready_response
      | Some db \<Rightarrow>
          (case get_stats db (api_world s) of
             Inl e \<Rightarrow>
               \<lparr>status_code = 500,
                json = [(pystr_of ''success'', JBool False),
                        (pystr_of ''error'', JStr (str_exn e))]\<rparr>
           | Inr st \<Rightarrow>
               \<lparr>status_code = 200,
                json = [(pystr_of ''success'', JBool True), (pystr_of ''stats'', jstats st)]\<rparr>))"

definition jturn :: "chat_turn \<Rightarrow> jval" where
  "jturn t = JObj [(pystr_of ''role'', JStr (role t)), (pystr_of ''content'', content t)]"

text \<open>\<open>GET /api/history\<close> and \<open>DELETE /api/history\<close>.\<close>

definition get_history :: "api_state \<Rightarrow> response" where
  "get_history s =
     \<lparr>status_code = 200, json = [(pystr_of ''history'', JArr (map jturn (chat_history s)))]\<rparr>"

definition success_response :: response where
  "success_response = \<lparr>status_code = 200, json = [(pystr_of ''success'', JBool True)]\<rparr>"

definition clear_history :: "api_state \<Rightarrow> response \<times> api_state" where
  "clear_history s = (success_response, s\<lparr>chat_history := []\<rparr>)"

text \<open>\<open>DELETE /api/database\<close>.\<close>

definition clear_database :: "api_state \<Rightarrow> response \<times> api_state" where
  "clear_database s =
     (case vector_db s of
        None \<Rightarrow> (not_ready_response, s)
      | Some db \<Rightarrow>
          (let w1 = delete_collection db (api_world s)
           in case create_collection_if_not_exists db w1 of
                (Inl e, w2) \<Rightarrow>
                  (\<lparr>status_code = 500,
                    json = [(pystr_of ''success'', JBool False),
                            (pystr_of ''error'', JStr (str_exn e))]\<rparr>, s\<lparr>api_world := w2\<rparr>)
              | (Inr u, w2) \<Rightarrow>
                  (\<lparr>status_code = 200,
                    json = [(pystr_of ''success'', JBool True),
                            (pystr_of ''message'', JStr (pystr_of ''Database cleared''))]\<rparr>,
                   s\<lparr>api_world := w2\<rparr>)))"

text \<open>The requests the server answers, and a process lifetime: requests answered while
  the background thread runs, the end of \<open>initialize_components\<close>, requests answered
  afterwards. The thread is started once, when the module is loaded.\<close>

datatype request =
    GetHealth
  | PostQuery "json_refusal + jval"
  | PostCaptureFull
  | GetStats
  | GetHistory
  | DeleteHistory
  | DeleteDatabase

fun handle :: "env \<Rightarrow> request \<Rightarrow> api_state \<Rightarrow> (uncaught + response) \<times> api_state" where
  "handle env GetHealth s = (Inr (health_check s), s)"
| "handle env (PostQuery request_json) s = query env request_json s"
| "handle env PostCaptureFull s = apfst Inr (capture_full_screen env s)"
| "handle env GetStats s = (Inr (api_get_stats s), s)"
| "handle env GetHistory s = (Inr (get_history s), s)"
| "handle env DeleteHistory s = apfst Inr (clear_history s)"
| "handle env DeleteDatabase s = apfst Inr (clear_database s)"

fun serve :: "env \<Rightarrow> request list \<Rightarrow> api_state \<Rightarrow> api_state" where
  "serve env [] s = s"
| "serve env (r # rs) s = serve env rs (snd (handle env r s))"

definition lifetime :: "env \<Rightarrow> world \<Rightarrow> request list \<Rightarrow> request list \<Rightarrow> api_state" where
  "lifetime env w before after =
     serve env after (initialize_components env (serve env before (initial_state w)))"

section \<open>menubar\_app.py and web\_ui.py\<close>

record second_brain_app =
  app_vector_db :: "vector_database option"
  app_llm :: "ollama_llm option"
  app_qa_chain :: "retrieval_qa option"
  web_ui :: "web_chat_ui option"
  app_embeddings :: "hf_embeddings option"
  auto_store :: bool

definition initial_app :: second_brain_app where
  "initial_app =
     \<lparr>app_vector_db = None, app_llm = None, app_qa_chain = None, web_ui = None,
      app_embeddings = None, auto_store = True\<rparr>"

text \<open>\<open>SecondBrainApp.initialize_components\<close>: an exception ends it with the fields set so
  far (the notifications are not modelled).\<close>

definition app_initialize_components ::
  "env \<Rightarrow> second_brain_app \<Rightarrow> world \<Rightarrow> second_brain_app \<times> world" where
  "app_initialize_components env app w =
     (case VectorDatabase (load_sentence_transformer env) book_knowledge w of
        (Inl e, w1) \<Rightarrow> (app, w1)
      | (Inr db, w1) \<Rightarrow>
          (let app1 = app\<lparr>app_vector_db := Some db\<rparr>
           in case load_llm env of
                Inl e \<Rightarrow> (app1, w1)
              | Inr l \<Rightarrow>
                  (let app2 = app1\<lparr>app_llm := Some l\<rparr>
                   in case load_embeddings env of
                        Inl e \<Rightarrow> (app2, w1)
                      | Inr em \<Rightarrow>
                          (let app3 = app2\<lparr>app_embeddings := Some em\<rparr>;
                               vector_store = \<lparr>vs_collection_name = book_knowledge,
                                               vs_embeddings = em,
                                               content_payload_key = k_text\<rparr>;
                               retriever = \<lparr>vectorstore = vector_store, search_k = 3\<rparr>;
                               app4 = app3\<lparr>app_qa_chain := Some \<lparr>chain_llm = l,
                                                               chain_retriever = retriever,
                                                               return_source_documents = True\<rparr>\<rparr>
                           in case load_web_ui env of
                                Inl e \<Rightarrow> (app4, w1)
                              | Inr ui \<Rightarrow> (app4\<lparr>web_ui := Some ui\<rparr>, w1)))))"

definition numbered_snippet :: "nat \<times> document \<Rightarrow> pystr" where
  "numbered_snippet p =
     (let snippet = replace_newlines (take 150 (page_content (snd p)))
      in [10] @ str_nat (fst p) @ pystr_of ''. '' @ snippet @ pystr_of ''...'')"

text \<open>\<open>SecondBrainApp.handle_query\<close>: the answer as one text, the snippets appended.\<close>

definition handle_query ::
  "env \<Rightarrow> second_brain_app \<Rightarrow> pystr \<Rightarrow> world \<Rightarrow> pystr \<times> world" where
  "handle_query env app question w =
     (case app_qa_chain app of
        None \<Rightarrow>
          ([10060] @ pystr_of '' RAG system is not initialized yet. Please wait...'', w)
      | Some chain \<Rightarrow>
          (case qa_invoke env chain (JStr question) w of
             (Inl e, w1) \<Rightarrow>
               ([10060] @ pystr_of '' Error processing query: '' @ str_exn e, w1)
           | (Inr response, w1) \<Rightarrow>
               (let answer = qa_result response
                in (case source_documents response of
                      None \<Rightarrow> answer
                    | Some docs \<Rightarrow>
                        if docs = [] then answer
                        else answer @ [10, 10, 128218] @ pystr_of '' Sources:'' @ [10]
                             @ concat (map numbered_snippet (enumerate 1 (take 2 docs))),
                    w1))))"

text \<open>\<open>POST /api/clear\<close> of the web chat UI.\<close>

definition ui_clear_history :: "web_chat_ui \<Rightarrow> response \<times> web_chat_ui" where
  "ui_clear_history ui = (success_response, ui\<lparr>ui_chat_history := []\<rparr>)"

section \<open>Conditions on the collaborators\<close>

text \<open>The points of the adapter's collection (none when the collection is missing).\<close>

definition points_of :: "vector_database \<Rightarrow> world \<Rightarrow> (pystr \<times> vec \<times> dict) list" where
  "points_of db w =
     (case map_of (qdrant w) (collection_name db) of None \<Rightarrow> [] | Some c \<Rightarrow> stored_points c)"

text \<open>The service accepts the embeddings of the given texts: the collection exists and its
  vector size is the size of each embedding.\<close>

definition store_accepts :: "vector_database \<Rightarrow> world \<Rightarrow> pystr list \<Rightarrow> bool" where
  "store_accepts db w texts =
     (case map_of (qdrant w) (collection_name db) of
        None \<Rightarrow> False
      | Some c \<Rightarrow>
          list_all (\<lambda>t. length (encode (embedding_model db) t) = vp_size (vectors_config c)) texts)"

text \<open>What \<open>uuid4\<close> promises: the identifiers still to be drawn differ from one another and
  from every identifier in the collection.\<close>

definition uuid_supply_fresh :: "env \<Rightarrow> vector_database \<Rightarrow> world \<Rightarrow> bool" where
  "uuid_supply_fresh env db w \<longleftrightarrow>
     inj_on (uuid4_seq env) {uuid_drawn w..} \<and>
     (\<forall>k. uuid_drawn w \<le> k \<longrightarrow> uuid4_seq env k \<notin> fst ` set (points_of db w))"

text \<open>The dictionary the caller hands to \<open>add_text\<close> (the empty one for \<open>None\<close>), and what
  \<open>add_text\<close> leaves in it.\<close>

definition caller_metadata :: "world \<Rightarrow> nat option \<Rightarrow> dict" where
  "caller_metadata w metadata = (case metadata of None \<Rightarrow> [] | Some a \<Rightarrow> heap w a)"

definition stamped :: "env \<Rightarrow> world \<Rightarrow> pystr \<Rightarrow> dict \<Rightarrow> dict" where
  "stamped env w txt d =
     AList.update k_text (JStr txt)
       (if k_timestamp \<in> set (map fst d) then d
        else AList.update k_timestamp (JStr (now_seq env (clock_read w))) d)"

text \<open>
  The spec's "top-\<open>k\<close> nearest stored records", in its own words: \<open>hits\<close> are \<open>k\<close> of the
  collection's points with their similarity to the query vector (all of them when there
  are fewer), listed by decreasing similarity, and no point left out is more similar
  than a point listed.
\<close>

definition top_k_nearest ::
  "vec \<Rightarrow> nat \<Rightarrow> collection \<Rightarrow> (real \<times> pystr \<times> vec \<times> dict) list \<Rightarrow> bool" where
  "top_k_nearest qv k c hits \<longleftrightarrow>
     (\<exists>others.
        mset (hits @ others) =
          mset (map (\<lambda>p. (score (vp_distance (vectors_config c)) qv (fst (snd p)), p))
                  (stored_points c))
      \<and> length hits = min k (length (stored_points c))
      \<and> sorted (rev (map fst hits))
      \<and> (\<forall>h \<in> set hits. \<forall>r \<in> set others. fst r \<le> fst h))"

section \<open>Example objects\<close>

definition demo_model :: sentence_transformer where
  "demo_model = \<lparr>sentence_embedding_dimension = 2, encode = (\<lambda>s. [real (length s), 1])\<rparr>"

definition demo_db :: vector_database where
  "demo_db = \<lparr>collection_name = book_knowledge, embedding_model = demo_model, embedding_dim = 2\<rparr>"

definition demo_env :: env where
  "demo_env =
     \<lparr>uuid4_seq = (\<lambda>k. pystr_of ''uuid-'' @ replicate k 120),
      now_seq = (\<lambda>k. pystr_of ''2025-01-01T00:00:0'' @ str_nat k),
      screenshot_seq = (\<lambda>k. Inr []),
      image_to_string = (\<lambda>img. Inr (pystr_of ''  The mitochondria is the powerhouse of the cell.'')),
      llm_reply = (\<lambda>k p. Inr (pystr_of ''mitochondria'')),
      prompt_template = (\<lambda>c q. c @ [10] @ q),
      pointstruct_copies = True,
      load_sentence_transformer = Inr demo_model,
      load_llm = Inr \<lparr>model_name = pystr_of ''llama3.1:8b''\<rparr>,
      load_embeddings = Inr \<lparr>embed_query = encode demo_model\<rparr>,
      load_web_ui = Inr \<lparr>port = 5555, is_running = True, ui_chat_history = []\<rparr>\<rparr>"

definition demo_world :: world where
  "demo_world =
     \<lparr>qdrant = [(book_knowledge,
                 \<lparr>vectors_config = \<lparr>vp_size = 2, vp_distance = COSINE\<rparr>, stored_points = []\<rparr>)],
      heap = (\<lambda>a. []), heap_next = 0, uuid_drawn = 0, clock_read = 0, screenshots = 0,
      llm_calls = 0\<rparr>"

definition demo_chain :: retrieval_qa where
  "demo_chain =
     \<lparr>chain_llm = \<lparr>model_name = pystr_of ''llama3.1:8b''\<rparr>,
      chain_retriever =
        \<lparr>vectorstore = \<lparr>vs_collection_name = book_knowledge,
                        vs_embeddings = \<lparr>embed_query = encode demo_model\<rparr>,
                        content_payload_key = k_text\<rparr>,
         search_k = 3\<rparr>,
      return_source_documents = True\<rparr>"

definition demo_ready :: api_state where
  "demo_ready = initialize_components demo_env (initial_state demo_world)"

definition demo_question :: dict where
  "demo_question = [(k_query, JStr (pystr_of ''What is the powerhouse of the cell?''))]"

definition failing_llm_env :: env where
  "failing_llm_env = demo_env\<lparr>llm_reply := (\<lambda>k p. Inl (Exn (pystr_of ''connection refused'')))\<rparr>"

definition demo_text :: pystr where
  "demo_text = pystr_of ''The mitochondria is the powerhouse of the cell.''"

definition demo_caller_world :: world where
  "demo_caller_world =
     demo_world\<lparr>heap := (\<lambda>a. [(k_source, JStr (pystr_of ''test'')),
                               (k_timestamp, JStr (pystr_of ''2024-12-31T23:59:59''))]),
                 heap_next := 1\<rparr>"

definition demo_texts :: "pystr list" where
  "demo_texts = [pystr_of ''alpha'', pystr_of ''beta'']"

definition by_reference_env :: env where
  "by_reference_env = demo_env\<lparr>pointstruct_copies := False\<rparr>"

definition short_text_env :: env where
  "short_text_env = demo_env\<lparr>image_to_string := (\<lambda>img. Inr (pystr_of ''   page 7  ''))\<rparr>"

definition demo_capture :: pystr where
  "demo_capture = pystr_of ''  The mitochondria is the powerhouse of the cell.''"

definition notes_env :: env where
  "notes_env = demo_env\<lparr>load_embeddings := Inr \<lparr>embed_query = (\<lambda>q. [1, 0])\<rparr>\<rparr>"

definition notes_chain :: retrieval_qa where
  "notes_chain =
     \<lparr>chain_llm = \<lparr>model_name = pystr_of ''llama3.1:8b''\<rparr>,
      chain_retriever =
        \<lparr>vectorstore = \<lparr>vs_collection_name = book_knowledge,
                        vs_embeddings = \<lparr>embed_query = (\<lambda>q. [1, 0])\<rparr>,
                        content_payload_key = k_text\<rparr>,
         search_k = 3\<rparr>,
      return_source_documents = True\<rparr>"

definition note_id :: "string \<Rightarrow> pystr" where
  "note_id n = pystr_of (''00000000-0000-0000-0000-00000000000'' @ n)"

definition notes_world :: world where
  "notes_world =
     demo_world\<lparr>qdrant :=
       [(book_knowledge,
         \<lparr>vectors_config = \<lparr>vp_size = 2, vp_distance = COSINE\<rparr>,
          stored_points =
            [(note_id ''3'', [0, 1], [(k_text, JStr (pystr_of ''gamma''))]),
             (note_id ''1'', [1, 0],
              [(k_source, JStr (pystr_of ''test'')),
               (k_text, JStr (pystr_of ''first line'' @ [10] @ pystr_of ''second line''))]),
             (note_id ''4'', [- 1, 0], [(k_text, JStr (pystr_of ''delta''))]),
             (note_id ''2'', [3 / 5, 4 / 5], [(k_text, JStr (pystr_of ''beta''))])]\<rparr>)]\<rparr>"

definition note_doc :: "string \<Rightarrow> pystr \<Rightarrow> document" where
  "note_doc i s =
     \<lparr>page_content = s,
      doc_metadata = [(pystr_of ''_id'', JStr (note_id i)),
                      (pystr_of ''_collection_name'', JStr book_knowledge)]\<rparr>"

definition notes_app :: second_brain_app where
  "notes_app = fst (app_initialize_components notes_env initial_app demo_world)"

definition notes_ready :: api_state where
  "notes_ready = lifetime notes_env notes_world [] []"

definition x_question :: dict where
  "x_question = [(k_query, JStr (pystr_of ''x''))]"

definition notes_docs :: "document list" where
  "notes_docs =
     [note_doc ''1'' (pystr_of ''first line'' @ [10] @ pystr_of ''second line''),
      note_doc ''2'' (pystr_of ''beta''),
      note_doc ''3'' (pystr_of ''gamma'')]"

section \<open>Facts about the Python values\<close>

lemma pystr_of_eq_iff: "pystr_of s = pystr_of t \<longleftrightarrow> s = t"
  by (simp add: pystr_of_def inj_map_eq_map inj_on_def)

lemma length_pystr_of: "length (pystr_of s) = length s"
  by (simp add: pystr_of_def)

section \<open>Clearing and re-creating the collection\<close>

lemma map_of_delete_append:
  "map_of (AList.delete k al @ [(k, v)]) = (map_of al)(k \<mapsto> v)"
  by (rule ext) (simp add: delete_conv' map_add_def split: option.splits)

lemma ensure_after_delete:
  "create_collection_if_not_exists db (delete_collection db w) =
     (Inr (), w\<lparr>qdrant := AList.delete (collection_name db) (qdrant w)
                   @ [(collection_name db,
                       \<lparr>vectors_config = \<lparr>vp_size = embedding_dim db, vp_distance = COSINE\<rparr>,
                        stored_points = []\<rparr>)]\<rparr>)"
  by (simp add: create_collection_if_not_exists_def delete_collection_def get_collections_def
      create_collection_def client_delete_collection_def delete_notin_dom)

lemma VectorDatabase_embedding_dim:
  "VectorDatabase (Inr m) name w = (Inr db, w1) \<Longrightarrow>
     embedding_dim db = sentence_embedding_dimension m \<and> collection_name db = name"
  by (auto simp: VectorDatabase_def Let_def split: prod.splits sum.splits)

text \<open>
  Claim C6. From any state of the service, \<open>delete_collection\<close> followed by
  \<open>_create_collection_if_not_exists\<close> succeeds and leaves the adapter's collection with no
  points, with the adapter's embedding dimension (the dimension of the embedding model,
  fixed when the adapter was built) and cosine distance; every other collection and the
  rest of the world are as before, and \<open>get_stats\<close> reports zero points. The endpoint
  \<open>DELETE /api/database\<close> does exactly this and answers 200. When the collection is
  present, \<open>_create_collection_if_not_exists\<close> returns with the world unchanged.
\<close>

theorem delete_then_ensure_gives_empty_collection:
  "(let w1 = snd (create_collection_if_not_exists db (delete_collection db w)) in
      fst (create_collection_if_not_exists db (delete_collection db w)) = Inr ()
    \<and> map_of (qdrant w1) =
        (map_of (qdrant w))(collection_name db \<mapsto>
           \<lparr>vectors_config = \<lparr>vp_size = embedding_dim db, vp_distance = COSINE\<rparr>,
            stored_points = []\<rparr>)
    \<and> get_stats db w1 = Inr \<lparr>total_points = 0, stats_vectors_count = 0, stats_status = GREEN\<rparr>
    \<and> w1\<lparr>qdrant := qdrant w\<rparr> = w
    \<and> clear_database (s\<lparr>vector_db := Some db, api_world := w\<rparr>) =
        (\<lparr>status_code = 200,
          json = [(pystr_of ''success'', JBool True),
                  (pystr_of ''message'', JStr (pystr_of ''Database cleared''))]\<rparr>,
         s\<lparr>vector_db := Some db, api_world := w1\<rparr>))
   \<and> (collection_name db \<in> set (get_collections (qdrant w)) \<longrightarrow>
        create_collection_if_not_exists db w = (Inr (), w))"
proof -
  let ?c = "\<lparr>vectors_config = \<lparr>vp_size = embedding_dim db, vp_distance = COSINE\<rparr>,
             stored_points = []\<rparr>"
  let ?w1 = "w\<lparr>qdrant := AList.delete (collection_name db) (qdrant w) @ [(collection_name db, ?c)]\<rparr>"
  have m: "map_of (qdrant ?w1) = (map_of (qdrant w))(collection_name db \<mapsto> ?c)"
    using map_of_delete_append [of "collection_name db" "qdrant w"] by simp
  have st: "get_stats db ?w1 =
      Inr \<lparr>total_points = 0, stats_vectors_count = 0, stats_status = GREEN\<rparr>"
    unfolding get_stats_def get_collection_def m by simp
  have api: "clear_database (s\<lparr>vector_db := Some db, api_world := w\<rparr>) =
        (\<lparr>status_code = 200,
          json = [(pystr_of ''success'', JBool True),
                  (pystr_of ''message'', JStr (pystr_of ''Database cleared''))]\<rparr>,
         s\<lparr>vector_db := Some db, api_world := ?w1\<rparr>)"
    by (simp add: clear_database_def ensure_after_delete)
  have present: "collection_name db \<in> set (get_collections (qdrant w)) \<longrightarrow>
        create_collection_if_not_exists db w = (Inr (), w)"
    by (simp add: create_collection_if_not_exists_def)
  show ?thesis
    unfolding ensure_after_delete Let_def snd_conv fst_conv
    using m st api present by simp
qed

theorem delete_then_ensure_witness:
  "collection_name demo_db \<in> set (get_collections (qdrant demo_world))
   \<and> create_collection_if_not_exists demo_db demo_world = (Inr (), demo_world)
   \<and> get_stats demo_db
        (snd (create_collection_if_not_exists demo_db (delete_collection demo_db demo_world)))
      = Inr \<lparr>total_points = 0, stats_vectors_count = 0, stats_status = GREEN\<rparr>"
proof -
  have h: "collection_name demo_db \<in> set (get_collections (qdrant demo_world))"
    by (simp add: demo_db_def demo_world_def get_collections_def)
  show ?thesis
    using h delete_then_ensure_gives_empty_collection [of demo_db demo_world]
    by (simp add: Let_def)
qed

section \<open>Clearing the chat history\<close>

text \<open>
  Claim C8. \<open>DELETE /api/history\<close> answers 200 with \<open>success: true\<close> from every state and
  leaves the history empty and everything else as it was; clearing twice is clearing once,
  and clearing an empty history changes nothing. The same holds for the web chat UI's
  own history and its route \<open>/api/clear\<close>.
\<close>

theorem clear_history_idempotent:
  "fst (clear_history s) = \<lparr>status_code = 200, json = [(pystr_of ''success'', JBool True)]\<rparr>
   \<and> chat_history (snd (clear_history s)) = []
   \<and> snd (clear_history s) = s\<lparr>chat_history := []\<rparr>
   \<and> clear_history (snd (clear_history s)) = clear_history s
   \<and> clear_history (s\<lparr>chat_history := []\<rparr>) = (fst (clear_history s), s\<lparr>chat_history := []\<rparr>)
   \<and> fst (ui_clear_history ui) = \<lparr>status_code = 200, json = [(pystr_of ''success'', JBool True)]\<rparr>
   \<and> ui_chat_history (snd (ui_clear_history ui)) = []
   \<and> ui_clear_history (snd (ui_clear_history ui)) = ui_clear_history ui
   \<and> ui_clear_history (ui\<lparr>ui_chat_history := []\<rparr>)
       = (fst (ui_clear_history ui), ui\<lparr>ui_chat_history := []\<rparr>)"
  by (simp add: clear_history_def ui_clear_history_def success_response_def)

section \<open>What the request handlers leave alone\<close>

lemma query_globals:
  "initialization_status (snd (query env data s)) = initialization_status s
   \<and> qa_chain (snd (query env data s)) = qa_chain s
   \<and> vector_db (snd (query env data s)) = vector_db s"
  by (simp add: query_def Let_def split: option.splits prod.splits sum.splits jval.splits)

lemma capture_globals:
  "initialization_status (snd (capture_full_screen env s)) = initialization_status s
   \<and> qa_chain (snd (capture_full_screen env s)) = qa_chain s
   \<and> vector_db (snd (capture_full_screen env s)) = vector_db s"
  by (simp add: capture_full_screen_def Let_def split: option.splits prod.splits sum.splits)

lemma clear_database_globals:
  "initialization_status (snd (clear_database s)) = initialization_status s
   \<and> qa_chain (snd (clear_database s)) = qa_chain s
   \<and> vector_db (snd (clear_database s)) = vector_db s"
  by (simp add: clear_database_def Let_def split: option.splits prod.splits sum.splits)

lemma handle_globals:
  "initialization_status (snd (handle env r s)) = initialization_status s
   \<and> qa_chain (snd (handle env r s)) = qa_chain s
   \<and> vector_db (snd (handle env r s)) = vector_db s"
  by (cases r) (simp_all add: query_globals capture_globals clear_database_globals clear_history_def)

lemma serve_globals:
  "initialization_status (serve env rs s) = initialization_status s
   \<and> qa_chain (serve env rs s) = qa_chain s
   \<and> vector_db (serve env rs s) = vector_db s"
  by (induction rs arbitrary: s) (simp_all add: handle_globals)

lemma VectorDatabase_cases:
  "VectorDatabase loaded name w =
     (case loaded of Inl e \<Rightarrow> (Inl e, w)
      | Inr m \<Rightarrow> (Inr \<lparr>collection_name = name, embedding_model = m,
                     embedding_dim = sentence_embedding_dimension m\<rparr>,
                snd (create_collection_if_not_exists \<lparr>collection_name = name, embedding_model = m,
                     embedding_dim = sentence_embedding_dimension m\<rparr> w)))"
  by (simp add: VectorDatabase_def Let_def create_collection_if_not_exists_def create_collection_def get_collections_def
      split: sum.splits)

lemma init_status_cases:
  "initialization_status (initialize_components env s) =
     (case load_sentence_transformer env of
        Inl e \<Rightarrow> \<lparr>ready = False, message = pystr_of ''Error: '' @ str_exn e\<rparr>
      | Inr m \<Rightarrow>
         (case load_llm env of
            Inl e \<Rightarrow> \<lparr>ready = False, message = pystr_of ''Error: '' @ str_exn e\<rparr>
          | Inr l \<Rightarrow>
             (case load_embeddings env of
                Inl e \<Rightarrow> \<lparr>ready = False, message = pystr_of ''Error: '' @ str_exn e\<rparr>
              | Inr em \<Rightarrow> \<lparr>ready = True, message = ready_message\<rparr>)))"
  by (simp add: initialize_components_def VectorDatabase_cases init_failed_def Let_def split: sum.splits)

lemma demo_ready_eq:
  "demo_ready =
     \<lparr>vector_db = Some demo_db, llm = Some \<lparr>model_name = pystr_of ''llama3.1:8b''\<rparr>,
      qa_chain = Some demo_chain, embeddings = Some \<lparr>embed_query = encode demo_model\<rparr>,
      initialization_status = \<lparr>ready = True, message = ready_message\<rparr>,
      chat_history = [], api_world = demo_world\<rparr>"
  by (simp add: demo_ready_def initialize_components_def VectorDatabase_def demo_env_def
      initial_state_def demo_world_def create_collection_if_not_exists_def get_collections_def
      demo_db_def demo_model_def demo_chain_def Let_def)

section \<open>The initialization status\<close>

text \<open>
  Claim C7. In a process lifetime (requests answered while the background thread runs, the
  one run of \<open>initialize_components\<close>, requests answered afterwards) the initialization
  status is the initial "Initializing..." until \<open>initialize_components\<close> ends; from then
  on it is the status that \<open>initialize_components\<close> wrote, whatever requests follow:
  ready with the success message when the three constructors returned, and otherwise not
  ready with "Error: " and the text of the first exception. No request handler writes the
  status, from any state.
\<close>

theorem initialization_status_changes_once:
  "initialization_status (serve env before (initial_state w))
     = \<lparr>ready = False, message = pystr_of ''Initializing...''\<rparr>
   \<and> initialization_status (lifetime env w before after)
     = initialization_status (lifetime env w before [])
   \<and> initialization_status (lifetime env w before after) =
       (case load_sentence_transformer env of
          Inl e \<Rightarrow> \<lparr>ready = False, message = pystr_of ''Error: '' @ str_exn e\<rparr>
        | Inr m \<Rightarrow>
           (case load_llm env of
              Inl e \<Rightarrow> \<lparr>ready = False, message = pystr_of ''Error: '' @ str_exn e\<rparr>
            | Inr l \<Rightarrow>
               (case load_embeddings env of
                  Inl e \<Rightarrow> \<lparr>ready = False, message = pystr_of ''Error: '' @ str_exn e\<rparr>
                | Inr em \<Rightarrow> \<lparr>ready = True, message = ready_message\<rparr>)))
   \<and> initialization_status (snd (handle env r s)) = initialization_status s"
  by (simp add: lifetime_def serve_globals handle_globals init_status_cases initial_state_def)

section \<open>The query endpoint\<close>

lemma query_not_ready:
  "\<not> ready (initialization_status s) \<Longrightarrow>
   query env request_json s =
     (Inr \<lparr>status_code = 503,
          json = [(pystr_of ''error'', JStr (pystr_of ''System not ready yet'')),
                  (pystr_of ''message'', JStr (message (initialization_status s)))]\<rparr>, s)"
  by (simp add: query_def)

lemma query_refused:
  "ready (initialization_status s) \<Longrightarrow>
   query env (Inl refusal) s = (Inl (Refused refusal), s)"
  by (simp add: query_def)

lemma query_not_object:
  "ready (initialization_status s) \<Longrightarrow> \<forall>data. body \<noteq> JObj data \<Longrightarrow>
   query env (Inr body) s = (Inl AttributeError, s)"
  by (cases body) (simp_all add: query_def)

lemma query_no_query:
  "ready (initialization_status s) \<Longrightarrow> \<not> truthy (dict_get data k_query (JStr [])) \<Longrightarrow>
   query env (Inr (JObj data)) s =
     (Inr \<lparr>status_code = 400,
          json = [(pystr_of ''error'', JStr (pystr_of ''No query provided''))]\<rparr>, s)"
  by (simp add: query_def)

lemma query_raises:
  "ready (initialization_status s) \<Longrightarrow> truthy (dict_get data k_query (JStr [])) \<Longrightarrow>
   qa_chain s = Some chain \<Longrightarrow>
   qa_invoke env chain (dict_get data k_query (JStr [])) (api_world s) = (Inl e, wa) \<Longrightarrow>
   query env (Inr (JObj data)) s = (Inr (error_response 500 e), s\<lparr>api_world := wa\<rparr>)"
  by (simp add: query_def)

lemma query_answers:
  "ready (initialization_status s) \<Longrightarrow> truthy (dict_get data k_query (JStr [])) \<Longrightarrow>
   qa_chain s = Some chain \<Longrightarrow>
   qa_invoke env chain (dict_get data k_query (JStr [])) (api_world s) = (Inr r, wa) \<Longrightarrow>
   query env (Inr (JObj data)) s =
     (Inr \<lparr>status_code = 200,
           json = [(pystr_of ''response'', JStr (qa_result r)),
                   (pystr_of ''sources'', JArr (format_sources r)),
                   (pystr_of ''success'', JBool True)]\<rparr>,
      s\<lparr>api_world := wa,
        chat_history := chat_history s
          @ [\<lparr>role = pystr_of ''user'', content = dict_get data k_query (JStr [])\<rparr>,
             \<lparr>role = pystr_of ''assistant'', content = JStr (qa_result r)\<rparr>]\<rparr>)"
  by (simp add: query_def Let_def)

text \<open>What the answer is, by cases, for every request and state.\<close>

lemma query_cases:
  "(\<exists>r. query env request_json s = (Inr r, s) \<and> (status_code r = 503 \<or> status_code r = 400))
   \<or> (\<exists>u. query env request_json s = (Inl u, s))
   \<or> (\<exists>r wa. query env request_json s = (Inr r, s\<lparr>api_world := wa\<rparr>) \<and> status_code r = 500)
   \<or> (\<exists>r. query env request_json s = (Inr r, s) \<and> status_code r = 500)
   \<or> (\<exists>data chain r wa.
         request_json = Inr (JObj data) \<and> ready (initialization_status s)
       \<and> truthy (dict_get data k_query (JStr [])) \<and> qa_chain s = Some chain
       \<and> qa_invoke env chain (dict_get data k_query (JStr [])) (api_world s) = (Inr r, wa)
       \<and> query env request_json s =
           (Inr \<lparr>status_code = 200,
                 json = [(pystr_of ''response'', JStr (qa_result r)),
                         (pystr_of ''sources'', JArr (format_sources r)),
                         (pystr_of ''success'', JBool True)]\<rparr>,
            s\<lparr>api_world := wa,
              chat_history := chat_history s
                @ [\<lparr>role = pystr_of ''user'', content = dict_get data k_query (JStr [])\<rparr>,
             \<lparr>role = pystr_of ''assistant'', content = JStr (qa_result r)\<rparr>]\<rparr>))"
proof (cases "ready (initialization_status s)")
  case False
  then show ?thesis by (simp add: query_not_ready)
next
  case rdy: True
  show ?thesis
  proof (cases request_json)
    case (Inl refusal)
    with rdy show ?thesis by (simp add: query_refused)
  next
    case (Inr body)
    show ?thesis
    proof (cases "\<exists>data. body = JObj data")
      case False
      with rdy Inr show ?thesis by (simp add: query_not_object)
    next
      case True
      then obtain data where body: "body = JObj data" by blast
      show ?thesis
      proof (cases "truthy (dict_get data k_query (JStr []))")
        case False
        with rdy Inr body show ?thesis by (simp add: query_no_query)
      next
        case tr: True
        show ?thesis
        proof (cases "qa_chain s")
          case None
          with rdy tr Inr body show ?thesis
            by (simp add: query_def error_response_def)
        next
          case (Some chain)
          obtain res wa where
            inv: "qa_invoke env chain (dict_get data k_query (JStr [])) (api_world s) = (res, wa)"
            by (cases "qa_invoke env chain (dict_get data k_query (JStr [])) (api_world s)")
          show ?thesis
          proof (cases res)
            case (Inl e)
            from query_raises [OF rdy tr Some inv [unfolded Inl]] Inr body
            have "query env request_json s
                = (Inr (error_response 500 e), s\<lparr>api_world := wa\<rparr>)
              \<and> status_code (error_response 500 e) = 500"
              by (simp add: error_response_def)
            then show ?thesis by blast
          next
            case r: (Inr r)
            from query_answers [OF rdy tr Some inv [unfolded r]] Inr body rdy tr Some inv r
            show ?thesis by simp
          qed
        qed
      qed
    qed
  qed
qed

lemma query_200:
  assumes "http_status (fst (query env request_json s)) = 200"
  shows "\<exists>data chain r wa.
         request_json = Inr (JObj data) \<and> ready (initialization_status s)
       \<and> truthy (dict_get data k_query (JStr [])) \<and> qa_chain s = Some chain
       \<and> qa_invoke env chain (dict_get data k_query (JStr [])) (api_world s) = (Inr r, wa)
       \<and> query env request_json s =
           (Inr \<lparr>status_code = 200,
                 json = [(pystr_of ''response'', JStr (qa_result r)),
                         (pystr_of ''sources'', JArr (format_sources r)),
                         (pystr_of ''success'', JBool True)]\<rparr>,
            s\<lparr>api_world := wa,
              chat_history := chat_history s
                @ [\<lparr>role = pystr_of ''user'', content = dict_get data k_query (JStr [])\<rparr>,
             \<lparr>role = pystr_of ''assistant'', content = JStr (qa_result r)\<rparr>]\<rparr>)"
proof -
  have u: "http_status (Inl u) \<noteq> 200" for u
  proof (cases u)
    case AttributeError
    then show ?thesis by simp
  next
    case (Refused refusal)
    then show ?thesis by (cases refusal) simp_all
  qed
  from query_cases [of env request_json s] assms u show ?thesis
    by (elim disjE exE conjE) simp_all
qed

lemma query_not_200:
  assumes "http_status (fst (query env request_json s)) \<noteq> 200"
  shows "chat_history (snd (query env request_json s)) = chat_history s"
  using query_cases [of env request_json s] assms
  by (elim disjE exE conjE) simp_all

text \<open>
  Claim C2, as amended. \<open>POST /api/query\<close>, for every request and state. When the status is
  not ready the answer is 503, whatever the body, and the state, the world with its count
  of model calls included, is unchanged. When it is ready: a body that Flask refuses as
  not JSON escapes as that HTTP exception, and a JSON body that is not an object (null, a
  list, a string, a number, a boolean) makes \<open>data.get\<close> raise \<open>AttributeError\<close> before the
  \<open>try\<close>, which Flask answers with its own 500 page; in both cases the state is unchanged
  and the chain is not invoked. For a JSON object: when the \<open>query\<close> field is missing, the
  empty string, or any other value that Python counts as false, the answer is 400 and the
  state is unchanged; otherwise the chain is invoked, and when it raises \<open>e\<close> (or no chain
  is installed, which raises inside the \<open>try\<close>) the answer is 500 with \<open>success: false\<close> and
  the error text, and when it returns the answer is 200 with the response, the sources
  and \<open>success: true\<close>.
\<close>

theorem query_status_codes:
  "(\<not> ready (initialization_status s) \<longrightarrow>
      query env request_json s =
        (Inr \<lparr>status_code = 503,
              json = [(pystr_of ''error'', JStr (pystr_of ''System not ready yet'')),
                      (pystr_of ''message'', JStr (message (initialization_status s)))]\<rparr>, s))
   \<and> (ready (initialization_status s) \<longrightarrow>
      query env (Inl refusal) s = (Inl (Refused refusal), s))
   \<and> (ready (initialization_status s) \<and> (\<forall>data. body \<noteq> JObj data) \<longrightarrow>
      query env (Inr body) s = (Inl AttributeError, s) \<and>
      http_status (fst (query env (Inr body) s)) = 500)
   \<and> (ready (initialization_status s) \<and>
       (map_of data k_query = None \<or> map_of data k_query = Some (JStr [])
        \<or> \<not> truthy (dict_get data k_query (JStr []))) \<longrightarrow>
      query env (Inr (JObj data)) s =
        (Inr \<lparr>status_code = 400,
              json = [(pystr_of ''error'', JStr (pystr_of ''No query provided''))]\<rparr>, s))
   \<and> (ready (initialization_status s) \<and> truthy (dict_get data k_query (JStr [])) \<and>
       qa_chain s = Some chain \<and>
       qa_invoke env chain (dict_get data k_query (JStr [])) (api_world s) = (Inl e, wa) \<longrightarrow>
      fst (query env (Inr (JObj data)) s) =
        Inr \<lparr>status_code = 500,
             json = [(pystr_of ''error'', JStr (str_exn e)),
                     (pystr_of ''success'', JBool False)]\<rparr>)
   \<and> (ready (initialization_status s) \<and> truthy (dict_get data k_query (JStr [])) \<and>
       qa_chain s = None \<longrightarrow>
      (\<exists>m. fst (query env (Inr (JObj data)) s) =
        Inr \<lparr>status_code = 500,
             json = [(pystr_of ''error'', JStr m), (pystr_of ''success'', JBool False)]\<rparr>))
   \<and> (ready (initialization_status s) \<and> truthy (dict_get data k_query (JStr [])) \<and>
       qa_chain s = Some chain \<and>
       qa_invoke env chain (dict_get data k_query (JStr [])) (api_world s) = (Inr r, wa) \<longrightarrow>
      fst (query env (Inr (JObj data)) s) =
        Inr \<lparr>status_code = 200,
             json = [(pystr_of ''response'', JStr (qa_result r)),
                     (pystr_of ''sources'', JArr (format_sources r)),
                     (pystr_of ''success'', JBool True)]\<rparr>)"
proof (intro conjI impI)
  assume "\<not> ready (initialization_status s)"
  then show "query env request_json s =
        (Inr \<lparr>status_code = 503,
              json = [(pystr_of ''error'', JStr (pystr_of ''System not ready yet'')),
                      (pystr_of ''message'', JStr (message (initialization_status s)))]\<rparr>, s)"
    by (rule query_not_ready)
next
  assume "ready (initialization_status s)"
  then show "query env (Inl refusal) s = (Inl (Refused refusal), s)"
    by (rule query_refused)
next
  assume a: "ready (initialization_status s) \<and> (\<forall>data. body \<noteq> JObj data)"
  then show "query env (Inr body) s = (Inl AttributeError, s)"
    by (simp add: query_not_object)
  then show "http_status (fst (query env (Inr body) s)) = 500"
    by simp
next
  assume a: "ready (initialization_status s) \<and>
       (map_of data k_query = None \<or> map_of data k_query = Some (JStr [])
        \<or> \<not> truthy (dict_get data k_query (JStr [])))"
  then have "\<not> truthy (dict_get data k_query (JStr []))"
    by (auto simp: dict_get_def)
  with a show "query env (Inr (JObj data)) s =
        (Inr \<lparr>status_code = 400,
              json = [(pystr_of ''error'', JStr (pystr_of ''No query provided''))]\<rparr>, s)"
    by (simp add: query_no_query)
next
  assume "ready (initialization_status s) \<and> truthy (dict_get data k_query (JStr [])) \<and>
       qa_chain s = Some chain \<and>
       qa_invoke env chain (dict_get data k_query (JStr [])) (api_world s) = (Inl e, wa)"
  then show "fst (query env (Inr (JObj data)) s) =
        Inr \<lparr>status_code = 500,
             json = [(pystr_of ''error'', JStr (str_exn e)),
                     (pystr_of ''success'', JBool False)]\<rparr>"
    by (simp add: query_raises error_response_def)
next
  assume "ready (initialization_status s) \<and> truthy (dict_get data k_query (JStr [])) \<and>
       qa_chain s = None"
  then show "(\<exists>m. fst (query env (Inr (JObj data)) s) =
        Inr \<lparr>status_code = 500,
             json = [(pystr_of ''error'', JStr m), (pystr_of ''success'', JBool False)]\<rparr>)"
    by (simp add: query_def error_response_def)
next
  assume "ready (initialization_status s) \<and> truthy (dict_get data k_query (JStr [])) \<and>
       qa_chain s = Some chain \<and>
       qa_invoke env chain (dict_get data k_query (JStr [])) (api_world s) = (Inr r, wa)"
  then show "fst (query env (Inr (JObj data)) s) =
        Inr \<lparr>status_code = 200,
             json = [(pystr_of ''response'', JStr (qa_result r)),
                     (pystr_of ''sources'', JArr (format_sources r)),
                     (pystr_of ''success'', JBool True)]\<rparr>"
    by (simp add: query_answers)
qed

lemma demo_search_empty:
  "get_relevant_documents (chain_retriever demo_chain) question demo_world = Inr []"
  by (simp add: get_relevant_documents_def demo_chain_def client_search_def demo_world_def)

lemma demo_invoke:
  "qa_invoke demo_env demo_chain (JStr question) demo_world =
     (Inr \<lparr>qa_result = pystr_of ''mitochondria'', source_documents = Some []\<rparr>,
      demo_world\<lparr>llm_calls := Suc 0\<rparr>)"
  by (simp add: qa_invoke_def demo_search_empty Let_def)
     (simp add: demo_env_def demo_chain_def demo_world_def)

lemma demo_invoke_fails:
  "qa_invoke failing_llm_env demo_chain (JStr question) demo_world =
     (Inl (Exn (pystr_of ''connection refused'')), demo_world\<lparr>llm_calls := Suc 0\<rparr>)"
  by (simp add: qa_invoke_def demo_search_empty Let_def)
     (simp add: failing_llm_env_def demo_env_def demo_chain_def demo_world_def)

lemma demo_question_truthy:
  "dict_get demo_question k_query (JStr []) = JStr (pystr_of ''What is the powerhouse of the cell?'')"
  "truthy (dict_get demo_question k_query (JStr []))"
  by (simp_all add: demo_question_def dict_get_def pystr_of_def)

theorem query_status_codes_witness:
  "\<not> ready (initialization_status (initial_state demo_world))
   \<and> http_status (fst (query demo_env (Inr JNull) (initial_state demo_world))) = 503
   \<and> snd (query demo_env (Inr JNull) (initial_state demo_world)) = initial_state demo_world
   \<and> ready (initialization_status demo_ready)
   \<and> query demo_env (Inl BadRequest) demo_ready = (Inl (Refused BadRequest), demo_ready)
   \<and> query demo_env (Inr (JArr [JNum 1])) demo_ready = (Inl AttributeError, demo_ready)
   \<and> map_of [] k_query = (None :: jval option)
   \<and> http_status (fst (query demo_env (Inr (JObj [])) demo_ready)) = 400
   \<and> qa_invoke failing_llm_env demo_chain (dict_get demo_question k_query (JStr []))
        (api_world demo_ready)
       = (Inl (Exn (pystr_of ''connection refused'')), demo_world\<lparr>llm_calls := Suc 0\<rparr>)
   \<and> fst (query failing_llm_env (Inr (JObj demo_question)) demo_ready) =
        Inr \<lparr>status_code = 500,
             json = [(pystr_of ''error'', JStr (pystr_of ''connection refused'')),
                     (pystr_of ''success'', JBool False)]\<rparr>
   \<and> http_status (fst (query demo_env (Inr (JObj demo_question))
                          (demo_ready\<lparr>qa_chain := None\<rparr>))) = 500
   \<and> fst (query demo_env (Inr (JObj demo_question)) demo_ready) =
        Inr \<lparr>status_code = 200,
             json = [(pystr_of ''response'', JStr (pystr_of ''mitochondria'')),
                     (pystr_of ''sources'', JArr []),
                     (pystr_of ''success'', JBool True)]\<rparr>"
proof -
  have r: "ready (initialization_status demo_ready)" "qa_chain demo_ready = Some demo_chain"
    "api_world demo_ready = demo_world"
    by (simp_all add: demo_ready_eq)
  have n: "\<not> ready (initialization_status (initial_state demo_world))"
    by (simp add: initial_state_def)
  have e: "map_of [] k_query = (None :: jval option)" by simp
  have b1: "http_status (fst (query demo_env (Inr JNull) (initial_state demo_world))) = 503
      \<and> snd (query demo_env (Inr JNull) (initial_state demo_world)) = initial_state demo_world"
    using n query_status_codes [where s = "initial_state demo_world" and env = demo_env
        and request_json = "Inr JNull"]
    by simp
  have b2: "query demo_env (Inl BadRequest) demo_ready = (Inl (Refused BadRequest), demo_ready)"
    using r query_status_codes [where s = demo_ready and env = demo_env and refusal = BadRequest]
    by simp
  have b3: "query demo_env (Inr (JArr [JNum 1])) demo_ready = (Inl AttributeError, demo_ready)"
    using r query_status_codes [where s = demo_ready and env = demo_env and body = "JArr [JNum 1]"]
    by simp
  have b4: "http_status (fst (query demo_env (Inr (JObj [])) demo_ready)) = 400"
    using r e query_status_codes [where s = demo_ready and env = demo_env and data = "[]"]
    by simp
  have b5: "fst (query failing_llm_env (Inr (JObj demo_question)) demo_ready) =
        Inr \<lparr>status_code = 500,
             json = [(pystr_of ''error'', JStr (pystr_of ''connection refused'')),
                     (pystr_of ''success'', JBool False)]\<rparr>"
    using r demo_question_truthy demo_invoke_fails
      query_status_codes [where s = demo_ready and env = failing_llm_env and data = demo_question
            and chain = demo_chain and e = "Exn (pystr_of ''connection refused'')"
            and wa = "demo_world\<lparr>llm_calls := Suc 0\<rparr>"]
    by simp
  have b6: "http_status (fst (query demo_env (Inr (JObj demo_question))
                          (demo_ready\<lparr>qa_chain := None\<rparr>))) = 500"
  proof -
    have "\<exists>m. fst (query demo_env (Inr (JObj demo_question)) (demo_ready\<lparr>qa_chain := None\<rparr>)) =
        Inr \<lparr>status_code = 500,
             json = [(pystr_of ''error'', JStr m), (pystr_of ''success'', JBool False)]\<rparr>"
      using r demo_question_truthy
        query_status_codes [where s = "demo_ready\<lparr>qa_chain := None\<rparr>" and env = demo_env
            and data = demo_question]
      by simp
    then obtain m where
      "fst (query demo_env (Inr (JObj demo_question)) (demo_ready\<lparr>qa_chain := None\<rparr>)) =
        Inr \<lparr>status_code = 500,
             json = [(pystr_of ''error'', JStr m), (pystr_of ''success'', JBool False)]\<rparr>"
      by (elim exE)
    then show ?thesis by simp
  qed
  have b7: "fst (query demo_env (Inr (JObj demo_question)) demo_ready) =
        Inr \<lparr>status_code = 200,
             json = [(pystr_of ''response'', JStr (pystr_of ''mitochondria'')),
                     (pystr_of ''sources'', JArr []),
                     (pystr_of ''success'', JBool True)]\<rparr>"
    using r demo_question_truthy demo_invoke
      query_status_codes [where s = demo_ready and env = demo_env and data = demo_question
            and chain = demo_chain
            and r = "\<lparr>qa_result = pystr_of ''mitochondria'', source_documents = Some []\<rparr>"
            and wa = "demo_world\<lparr>llm_calls := Suc 0\<rparr>"]
    by (simp add: format_sources_def)
  show ?thesis
    using r n e b1 b2 b3 b4 b5 b6 b7 demo_question_truthy demo_invoke_fails by simp
qed

text \<open>
  Claim C2 as stated fails for a body that is not an object. With the system ready, the
  bodies \<open>null\<close> and \<open>[1]\<close> have no \<open>query\<close> field, yet the handler returns no response at
  all, neither the 400 nor a 500 with \<open>success: false\<close>: \<open>AttributeError\<close> escapes it, and
  the answer is the 500 page of Flask.
\<close>

theorem query_non_object_body_counterexample:
  "ready (initialization_status demo_ready)
   \<and> query demo_env (Inr JNull) demo_ready = (Inl AttributeError, demo_ready)
   \<and> query demo_env (Inr (JArr [JNum 1])) demo_ready = (Inl AttributeError, demo_ready)
   \<and> http_status (fst (query demo_env (Inr JNull) demo_ready)) = 500
   \<and> http_status (fst (query demo_env (Inr JNull) demo_ready)) \<noteq> 400"
  by (simp add: query_def demo_ready_eq)

text \<open>
  Claim C9. When the chain returns, \<open>POST /api/query\<close> answers 200 and the chat history is
  the history before, followed by the user turn with the query and the assistant turn with
  the answer, in this order. When the chain raises, the answer is 500 and the history is
  unchanged. More generally, for every request, the history is unchanged by every answer
  other than 200, an escaped exception included, and an answer of 200 is the answer to a
  JSON object and carries the response that the assistant turn records.
\<close>

theorem query_chat_history:
  "(ready (initialization_status s) \<and> truthy (dict_get data k_query (JStr [])) \<and>
    qa_chain s = Some chain \<and>
    qa_invoke env chain (dict_get data k_query (JStr [])) (api_world s) = (Inr r, wa) \<longrightarrow>
      fst (query env (Inr (JObj data)) s) =
        Inr \<lparr>status_code = 200,
             json = [(pystr_of ''response'', JStr (qa_result r)),
                     (pystr_of ''sources'', JArr (format_sources r)),
                     (pystr_of ''success'', JBool True)]\<rparr> \<and>
      chat_history (snd (query env (Inr (JObj data)) s)) =
        chat_history s
          @ [\<lparr>role = pystr_of ''user'', content = dict_get data k_query (JStr [])\<rparr>,
             \<lparr>role = pystr_of ''assistant'', content = JStr (qa_result r)\<rparr>])
   \<and> (ready (initialization_status s) \<and> truthy (dict_get data k_query (JStr [])) \<and>
       qa_chain s = Some chain \<and>
       qa_invoke env chain (dict_get data k_query (JStr [])) (api_world s) = (Inl e, wa) \<longrightarrow>
      fst (query env (Inr (JObj data)) s) = Inr (error_response 500 e) \<and>
      chat_history (snd (query env (Inr (JObj data)) s)) = chat_history s)
   \<and> (http_status (fst (query env request_json s)) \<noteq> 200 \<longrightarrow>
      chat_history (snd (query env request_json s)) = chat_history s)
   \<and> (http_status (fst (query env request_json s)) = 200 \<longrightarrow>
      (\<exists>body answer rest.
         request_json = Inr (JObj body) \<and>
         fst (query env request_json s) =
           Inr \<lparr>status_code = 200, json = (pystr_of ''response'', JStr answer) # rest\<rparr> \<and>
         chat_history (snd (query env request_json s)) =
           chat_history s
             @ [\<lparr>role = pystr_of ''user'', content = dict_get body k_query (JStr [])\<rparr>,
                \<lparr>role = pystr_of ''assistant'', content = JStr answer\<rparr>]))"
proof (intro conjI impI)
  assume "ready (initialization_status s) \<and> truthy (dict_get data k_query (JStr [])) \<and>
    qa_chain s = Some chain \<and>
    qa_invoke env chain (dict_get data k_query (JStr [])) (api_world s) = (Inr r, wa)"
  then show "chat_history (snd (query env (Inr (JObj data)) s)) =
        chat_history s
          @ [\<lparr>role = pystr_of ''user'', content = dict_get data k_query (JStr [])\<rparr>,
             \<lparr>role = pystr_of ''assistant'', content = JStr (qa_result r)\<rparr>]"
    and "fst (query env (Inr (JObj data)) s) =
        Inr \<lparr>status_code = 200,
             json = [(pystr_of ''response'', JStr (qa_result r)),
                     (pystr_of ''sources'', JArr (format_sources r)),
                     (pystr_of ''success'', JBool True)]\<rparr>"
    by (simp_all add: query_answers)
next
  assume "ready (initialization_status s) \<and> truthy (dict_get data k_query (JStr [])) \<and>
       qa_chain s = Some chain \<and>
       qa_invoke env chain (dict_get data k_query (JStr [])) (api_world s) = (Inl e, wa)"
  then show "fst (query env (Inr (JObj data)) s) = Inr (error_response 500 e)"
    and "chat_history (snd (query env (Inr (JObj data)) s)) = chat_history s"
    by (simp_all add: query_raises)
next
  assume "http_status (fst (query env request_json s)) \<noteq> 200"
  then show "chat_history (snd (query env request_json s)) = chat_history s"
    by (rule query_not_200)
next
  assume "http_status (fst (query env request_json s)) = 200"
  from query_200 [OF this] obtain body chain r wa where
    "request_json = Inr (JObj body)"
    "query env request_json s =
       (Inr \<lparr>status_code = 200,
             json = [(pystr_of ''response'', JStr (qa_result r)),
                     (pystr_of ''sources'', JArr (format_sources r)),
                     (pystr_of ''success'', JBool True)]\<rparr>,
        s\<lparr>api_world := wa,
          chat_history := chat_history s
            @ [\<lparr>role = pystr_of ''user'', content = dict_get body k_query (JStr [])\<rparr>,
               \<lparr>role = pystr_of ''assistant'', content = JStr (qa_result r)\<rparr>]\<rparr>)"
    by blast
  then show "\<exists>body answer rest.
         request_json = Inr (JObj body) \<and>
         fst (query env request_json s) =
           Inr \<lparr>status_code = 200, json = (pystr_of ''response'', JStr answer) # rest\<rparr> \<and>
         chat_history (snd (query env request_json s)) =
           chat_history s
             @ [\<lparr>role = pystr_of ''user'', content = dict_get body k_query (JStr [])\<rparr>,
                \<lparr>role = pystr_of ''assistant'', content = JStr answer\<rparr>]"
    by simp
qed

theorem query_chat_history_witness:
  "qa_invoke demo_env demo_chain (dict_get demo_question k_query (JStr [])) (api_world demo_ready)
     = (Inr \<lparr>qa_result = pystr_of ''mitochondria'', source_documents = Some []\<rparr>,
        demo_world\<lparr>llm_calls := Suc 0\<rparr>)
   \<and> http_status (fst (query demo_env (Inr (JObj demo_question)) demo_ready)) = 200
   \<and> chat_history (snd (query demo_env (Inr (JObj demo_question)) demo_ready)) =
       [\<lparr>role = pystr_of ''user'',
         content = JStr (pystr_of ''What is the powerhouse of the cell?'')\<rparr>,
        \<lparr>role = pystr_of ''assistant'', content = JStr (pystr_of ''mitochondria'')\<rparr>]
   \<and> qa_invoke failing_llm_env demo_chain (dict_get demo_question k_query (JStr []))
        (api_world demo_ready)
       = (Inl (Exn (pystr_of ''connection refused'')), demo_world\<lparr>llm_calls := Suc 0\<rparr>)
   \<and> http_status (fst (query failing_llm_env (Inr (JObj demo_question)) demo_ready)) = 500
   \<and> chat_history (snd (query failing_llm_env (Inr (JObj demo_question)) demo_ready)) = []"
proof -
  have r: "ready (initialization_status demo_ready)" "qa_chain demo_ready = Some demo_chain"
    "api_world demo_ready = demo_world" "chat_history demo_ready = []"
    by (simp_all add: demo_ready_eq)
  have ok: "http_status (fst (query demo_env (Inr (JObj demo_question)) demo_ready)) = 200
     \<and> chat_history (snd (query demo_env (Inr (JObj demo_question)) demo_ready)) =
       [\<lparr>role = pystr_of ''user'',
         content = JStr (pystr_of ''What is the powerhouse of the cell?'')\<rparr>,
        \<lparr>role = pystr_of ''assistant'', content = JStr (pystr_of ''mitochondria'')\<rparr>]"
    using r demo_question_truthy demo_invoke
      query_chat_history [where s = demo_ready and env = demo_env and data = demo_question
            and chain = demo_chain
            and r = "\<lparr>qa_result = pystr_of ''mitochondria'', source_documents = Some []\<rparr>"
            and wa = "demo_world\<lparr>llm_calls := Suc 0\<rparr>"]
    by simp
  have bad: "http_status (fst (query failing_llm_env (Inr (JObj demo_question)) demo_ready)) = 500
     \<and> chat_history (snd (query failing_llm_env (Inr (JObj demo_question)) demo_ready)) = []"
    using r demo_question_truthy demo_invoke_fails
      query_chat_history [where s = demo_ready and env = failing_llm_env and data = demo_question
            and chain = demo_chain and e = "Exn (pystr_of ''connection refused'')"
            and wa = "demo_world\<lparr>llm_calls := Suc 0\<rparr>"]
    by (simp add: error_response_def)
  show ?thesis
    using r ok bad demo_question_truthy demo_invoke demo_invoke_fails by simp
qed

section \<open>Adding texts to the store\<close>

lemma upsert_points_Nil [simp]: "upsert_points [] old = old"
  by (simp add: upsert_points_def)

lemma upsert_points_Cons [simp]:
  "upsert_points (p # ps) old = upsert_points ps (AList.update (fst p) (snd p) old)"
  by (simp add: upsert_points_def)

lemma update_fresh: "k \<notin> fst ` set al \<Longrightarrow> AList.update k v al = al @ [(k, v)]"
  by (induction al) auto

lemma points_of_client_upsert:
  assumes "map_of (qdrant w) (collection_name db) = Some c"
    and "list_all (\<lambda>p. length (ps_vector p) = vp_size (vectors_config c)) pts"
  shows "\<exists>w'. client_upsert db pts w = (Inr (), w')
           \<and> points_of db w' = upsert_points (map (sent_point w) pts) (points_of db w)
           \<and> w'\<lparr>qdrant := qdrant w\<rparr> = w"
proof -
  have "\<not> list_ex (\<lambda>p. length (fst (snd p)) \<noteq> vp_size (vectors_config c)) (map (sent_point w) pts)"
    using assms(2) by (induction pts) (simp_all add: sent_point_def)
  then show ?thesis
    using assms(1)
    by (simp add: client_upsert_def upsert_def points_of_def update_conv')
qed


lemma store_accepts_single:
  "store_accepts db w [txt] \<Longrightarrow>
   \<exists>c. map_of (qdrant w) (collection_name db) = Some c
        \<and> length (encode (embedding_model db) txt) = vp_size (vectors_config c)"
  by (auto simp: store_accepts_def split: option.splits)

lemma add_text_points:
  assumes "store_accepts db w [txt]"
  shows "\<exists>w'. add_text env db txt metadata w = (Inr (uuid4_seq env (uuid_drawn w)), w')
     \<and> points_of db w' =
         AList.update (uuid4_seq env (uuid_drawn w))
           (encode (embedding_model db) txt, stamped env w txt (caller_metadata w metadata))
           (points_of db w)
     \<and> uuid_drawn w' = Suc (uuid_drawn w)"
proof -
  from store_accepts_single [OF assms] obtain c where
    c: "map_of (qdrant w) (collection_name db) = Some c"
       "length (encode (embedding_model db) txt) = vp_size (vectors_config c)"
    by blast
  show ?thesis
  proof (cases metadata)
    case None
    show ?thesis
      using c
      by (simp add: None add_text_def uuid4_def new_dict_def datetime_now_def dict_set_def
          PointStruct_def client_upsert_def upsert_def sent_point_def points_of_def
          caller_metadata_def stamped_def Let_def update_conv')
  next
    case (Some a)
    show ?thesis
      using c
      by (simp add: Some add_text_def uuid4_def new_dict_def datetime_now_def dict_set_def
          PointStruct_def client_upsert_def upsert_def sent_point_def points_of_def
          caller_metadata_def stamped_def Let_def update_conv')
  qed
qed


lemma fresh_not_stored:
  "uuid_supply_fresh env db w \<Longrightarrow> uuid_drawn w \<le> k \<Longrightarrow>
   uuid4_seq env k \<notin> fst ` set (points_of db w)"
  by (simp add: uuid_supply_fresh_def)

lemma fresh_distinct:
  "uuid_supply_fresh env db w \<Longrightarrow>
   distinct (map (uuid4_seq env) [uuid_drawn w ..< uuid_drawn w + n])"
  by (auto simp: uuid_supply_fresh_def distinct_map intro: inj_on_subset)

lemma demo_points_empty:
  "points_of demo_db demo_world = []" "points_of demo_db demo_caller_world = []"
  by (simp_all add: points_of_def demo_db_def demo_world_def demo_caller_world_def)

lemma demo_store_accepts:
  "store_accepts demo_db demo_world texts" "store_accepts demo_db demo_caller_world texts"
  by (simp_all add: store_accepts_def demo_db_def demo_world_def demo_caller_world_def
      demo_model_def list_all_iff)

lemma demo_uuid_inj: "inj_on (uuid4_seq demo_env) A"
  by (simp add: inj_on_def demo_env_def)

lemma demo_uuid_fresh:
  "uuid_supply_fresh demo_env demo_db demo_world"
  "uuid_supply_fresh demo_env demo_db demo_caller_world"
  by (simp_all add: uuid_supply_fresh_def demo_uuid_inj demo_points_empty)

text \<open>
  Claim C3. Let the service accept the embedding of the text (the collection exists, with
  the vector size of the embedding) and let \<open>uuid4\<close> keep its promise. Then
  \<open>add_text(text, metadata)\<close> returns the identifier just drawn, which is the id of no
  stored point; the collection afterwards is the collection before followed by exactly one
  point, with this id and the embedding of the text; the payload of that point has \<open>text\<close>
  equal to the text, has \<open>timestamp\<close> equal to the caller's value when the caller's
  dictionary has the key and to the clock's reading otherwise, and agrees with the
  caller's dictionary on every other key; and the identifiers drawn later differ from
  every stored id, this one included.
\<close>

theorem add_text_stores_one_stamped_point:
  assumes "store_accepts db w [txt]" and "uuid_supply_fresh env db w"
  shows "\<exists>w' payload.
      add_text env db txt metadata w = (Inr (uuid4_seq env (uuid_drawn w)), w')
    \<and> uuid4_seq env (uuid_drawn w) \<notin> fst ` set (points_of db w)
    \<and> points_of db w' =
        points_of db w @ [(uuid4_seq env (uuid_drawn w), encode (embedding_model db) txt, payload)]
    \<and> map_of payload k_text = Some (JStr txt)
    \<and> map_of payload k_timestamp =
        Some (case map_of (caller_metadata w metadata) k_timestamp of
                Some v \<Rightarrow> v
              | None \<Rightarrow> JStr (now_seq env (clock_read w)))
    \<and> (\<forall>k. k \<noteq> k_text \<and> k \<noteq> k_timestamp \<longrightarrow>
           map_of payload k = map_of (caller_metadata w metadata) k)
    \<and> uuid_supply_fresh env db w'"
proof -
  let ?pid = "uuid4_seq env (uuid_drawn w)"
  let ?d = "caller_metadata w metadata"
  let ?payload = "stamped env w txt ?d"
  from add_text_points [OF assms(1), of env metadata] obtain w' where
    w': "add_text env db txt metadata w = (Inr ?pid, w')"
        "points_of db w' =
           AList.update ?pid (encode (embedding_model db) txt, ?payload) (points_of db w)"
        "uuid_drawn w' = Suc (uuid_drawn w)"
    by blast
  have fresh: "?pid \<notin> fst ` set (points_of db w)"
    using fresh_not_stored [OF assms(2), of "uuid_drawn w"] by simp
  have pts: "points_of db w' =
      points_of db w @ [(?pid, encode (embedding_model db) txt, ?payload)]"
    using w'(2) fresh by (simp add: update_fresh)
  have kne: "k_text \<noteq> k_timestamp"
    by (simp add: k_text_def k_timestamp_def pystr_of_eq_iff)
  have t: "map_of ?payload k_text = Some (JStr txt)"
    by (simp add: stamped_def update_conv')
  have ts: "map_of ?payload k_timestamp =
        Some (case map_of ?d k_timestamp of Some v \<Rightarrow> v
              | None \<Rightarrow> JStr (now_seq env (clock_read w)))"
  proof (cases "map_of ?d k_timestamp")
    case None
    then have "k_timestamp \<notin> set (map fst ?d)"
      by (simp add: map_of_eq_None_iff)
    with None kne show ?thesis
      by (simp add: stamped_def update_conv')
  next
    case (Some v)
    then have "k_timestamp \<in> set (map fst ?d)"
      using map_of_eq_None_iff [of ?d k_timestamp] by simp
    with Some kne show ?thesis
      by (simp add: stamped_def update_conv')
  qed
  have others: "\<forall>k. k \<noteq> k_text \<and> k \<noteq> k_timestamp \<longrightarrow> map_of ?payload k = map_of ?d k"
    by (simp add: stamped_def update_conv')
  have inj: "inj_on (uuid4_seq env) {Suc (uuid_drawn w)..}"
    using assms(2) by (auto simp: uuid_supply_fresh_def intro: inj_on_subset)
  have later: "\<forall>k. Suc (uuid_drawn w) \<le> k \<longrightarrow>
      uuid4_seq env k \<notin> fst ` set (points_of db w')"
  proof (intro allI impI)
    fix k assume k: "Suc (uuid_drawn w) \<le> k"
    have "inj_on (uuid4_seq env) {uuid_drawn w..}"
      using assms(2) by (simp add: uuid_supply_fresh_def)
    from inj_onD [OF this, of k "uuid_drawn w"] k
    have "uuid4_seq env k \<noteq> ?pid"
      by auto
    moreover have "uuid4_seq env k \<notin> fst ` set (points_of db w)"
      using fresh_not_stored [OF assms(2), of k] k by simp
    ultimately show "uuid4_seq env k \<notin> fst ` set (points_of db w')"
      by (simp add: pts)
  qed
  have "uuid_supply_fresh env db w'"
    using inj later by (simp add: uuid_supply_fresh_def w'(3))
  with w'(1) fresh pts t ts others show ?thesis
    by blast
qed


theorem add_text_stores_one_stamped_point_witness:
  "store_accepts demo_db demo_world [demo_text]
   \<and> uuid_supply_fresh demo_env demo_db demo_world
   \<and> fst (add_text demo_env demo_db demo_text None demo_world) = Inr (pystr_of ''uuid-'')
   \<and> (\<exists>payload.
         points_of demo_db (snd (add_text demo_env demo_db demo_text None demo_world))
           = [(pystr_of ''uuid-'', encode demo_model demo_text, payload)]
       \<and> map_of payload k_text = Some (JStr demo_text)
       \<and> map_of payload k_timestamp = Some (JStr (pystr_of ''2025-01-01T00:00:00'')))
   \<and> store_accepts demo_db demo_caller_world [demo_text]
   \<and> uuid_supply_fresh demo_env demo_db demo_caller_world
   \<and> (\<exists>payload.
         points_of demo_db (snd (add_text demo_env demo_db demo_text (Some 0) demo_caller_world))
           = [(pystr_of ''uuid-'', encode demo_model demo_text, payload)]
       \<and> map_of payload k_text = Some (JStr demo_text)
       \<and> map_of payload k_timestamp = Some (JStr (pystr_of ''2024-12-31T23:59:59''))
       \<and> map_of payload k_source = Some (JStr (pystr_of ''test'')))"
proof -
  have k: "k_source \<noteq> k_text" "k_source \<noteq> k_timestamp"
    by (simp_all add: k_source_def k_text_def k_timestamp_def pystr_of_eq_iff)
  have v: "uuid4_seq demo_env (uuid_drawn demo_world) = pystr_of ''uuid-''"
    "uuid4_seq demo_env (uuid_drawn demo_caller_world) = pystr_of ''uuid-''"
    "now_seq demo_env (clock_read demo_world) = pystr_of ''2025-01-01T00:00:00''"
    "embedding_model demo_db = demo_model"
    by (simp_all add: demo_env_def demo_world_def demo_caller_world_def demo_db_def pystr_of_def)
  have m: "caller_metadata demo_world None = []"
    "map_of (caller_metadata demo_caller_world (Some 0)) k_timestamp
       = Some (JStr (pystr_of ''2024-12-31T23:59:59''))"
    "map_of (caller_metadata demo_caller_world (Some 0)) k_source = Some (JStr (pystr_of ''test''))"
    using k by (simp_all add: caller_metadata_def demo_caller_world_def demo_world_def)
  from add_text_stores_one_stamped_point [OF demo_store_accepts(1) demo_uuid_fresh(1), of demo_text None]
  have a: "fst (add_text demo_env demo_db demo_text None demo_world) = Inr (pystr_of ''uuid-'')
     \<and> (\<exists>payload.
         points_of demo_db (snd (add_text demo_env demo_db demo_text None demo_world))
           = [(pystr_of ''uuid-'', encode demo_model demo_text, payload)]
       \<and> map_of payload k_text = Some (JStr demo_text)
       \<and> map_of payload k_timestamp = Some (JStr (pystr_of ''2025-01-01T00:00:00'')))"
    by (auto simp: v m demo_points_empty)
  from add_text_stores_one_stamped_point [OF demo_store_accepts(2) demo_uuid_fresh(2), of demo_text "Some 0"]
  have b: "\<exists>payload.
         points_of demo_db (snd (add_text demo_env demo_db demo_text (Some 0) demo_caller_world))
           = [(pystr_of ''uuid-'', encode demo_model demo_text, payload)]
       \<and> map_of payload k_text = Some (JStr demo_text)
       \<and> map_of payload k_timestamp = Some (JStr (pystr_of ''2024-12-31T23:59:59''))
       \<and> map_of payload k_source = Some (JStr (pystr_of ''test''))"
    using k by (auto simp: v m demo_points_empty)
  show ?thesis
    using a b demo_store_accepts demo_uuid_fresh by blast
qed


lemma batch_points_frame:
  "batch_points env zs points w = (out, wend) \<Longrightarrow>
     map ps_id out = map ps_id points
        @ map (uuid4_seq env) [uuid_drawn w ..< uuid_drawn w + length zs]
   \<and> map ps_vector out = map ps_vector points @ map (\<lambda>z. fst (snd z)) zs
   \<and> qdrant wend = qdrant w
   \<and> uuid_drawn wend = uuid_drawn w + length zs"
proof (induction env zs points w arbitrary: out wend rule: batch_points.induct)
  case (1 env points w)
  then show ?case by simp
next
  case (2 env tx embedding md rest points w)
  let ?w4 = "dict_set md k_text (JStr tx)
      (dict_set md k_timestamp
         (dict_get (heap (snd (datetime_now env (snd (uuid4 env w)))) md) k_timestamp
            (JStr (fst (datetime_now env (snd (uuid4 env w))))))
         (snd (datetime_now env (snd (uuid4 env w)))))"
  let ?p = "PointStruct env (fst (uuid4 env w)) embedding md ?w4"
  have step: "batch_points env rest (points @ [?p]) ?w4 = (out, wend)"
    using "2.prems" by (simp add: Let_def split_beta)
  have w4: "qdrant ?w4 = qdrant w" "uuid_drawn ?w4 = Suc (uuid_drawn w)"
    by (simp_all add: dict_set_def datetime_now_def uuid4_def)
  have p: "ps_id ?p = uuid4_seq env (uuid_drawn w)" "ps_vector ?p = embedding"
    by (simp_all add: PointStruct_def uuid4_def)
  have u: "[uuid_drawn w ..< uuid_drawn w + length ((tx, embedding, md) # rest)]
      = uuid_drawn w # [Suc (uuid_drawn w) ..< Suc (uuid_drawn w) + length rest]"
    by (subst upt_conv_Cons) simp_all
  from "2.IH" [OF refl prod.collapse refl prod.collapse refl refl step]
  show ?case
    unfolding u by (simp add: w4 p)
qed

lemma length_upsert_points:
  "distinct (map fst new) \<Longrightarrow> fst ` set new \<inter> fst ` set old = {} \<Longrightarrow>
   length (upsert_points new old) = length old + length new"
proof (induction new arbitrary: old)
  case Nil
  then show ?case by simp
next
  case (Cons p ps)
  have fresh: "fst p \<notin> fst ` set old"
    using Cons.prems(2) by auto
  have "fst ` set ps \<inter> fst ` set (old @ [(fst p, snd p)]) = {}"
    using Cons.prems by auto
  with Cons.IH [of "old @ [(fst p, snd p)]"] Cons.prems(1) fresh
  show ?case by (simp add: update_fresh)
qed

lemma get_stats_total:
  "map_of (qdrant w) (collection_name db) = Some c \<Longrightarrow>
   get_stats db w = Inr \<lparr>total_points = length (points_of db w),
                         stats_vectors_count = length (points_of db w),
                         stats_status = GREEN\<rparr>"
  by (simp add: get_stats_def get_collection_def points_of_def)


lemma map_mid_zip:
  "length xs = length ys \<Longrightarrow> length ys = length zs \<Longrightarrow>
   map (\<lambda>z. fst (snd z)) (zip xs (zip ys zs)) = ys"
  by (induction xs ys zs rule: list_induct3) simp_all

lemma add_texts_batch_unfold:
  assumes "metadatas = None \<or> (\<exists>ms. metadatas = Some ms \<and> length ms = length texts)"
  shows "\<exists>mds w1 points w2.
      length mds = length texts \<and> qdrant w1 = qdrant w \<and> uuid_drawn w1 = uuid_drawn w
    \<and> batch_points env (zip texts (zip (map (encode (embedding_model db)) texts) mds)) [] w1
        = (points, w2)
    \<and> add_texts_batch env db texts metadatas w =
        (case client_upsert db points w2 of
           (Inl e, w3) \<Rightarrow> (Inl e, w3)
         | (Inr u, w3) \<Rightarrow> (Inr (map ps_id points), w3))"
proof (cases metadatas)
  case None
  obtain points w2 where
    "batch_points env
       (zip texts (zip (map (encode (embedding_model db)) texts)
                     (replicate (length texts) (fst (new_dict [] w))))) [] (snd (new_dict [] w))
       = (points, w2)"
    by (cases "batch_points env
       (zip texts (zip (map (encode (embedding_model db)) texts)
                     (replicate (length texts) (fst (new_dict [] w))))) [] (snd (new_dict [] w))")
  then show ?thesis
    by (rule_tac x = "replicate (length texts) (fst (new_dict [] w))" in exI,
        rule_tac x = "snd (new_dict [] w)" in exI, rule_tac x = points in exI,
        rule_tac x = w2 in exI)
       (simp add: None add_texts_batch_def Let_def new_dict_def)
next
  case (Some ms)
  with assms have len: "length ms = length texts" by simp
  obtain points w2 where
    "batch_points env (zip texts (zip (map (encode (embedding_model db)) texts) ms)) [] w
       = (points, w2)"
    by (cases "batch_points env (zip texts (zip (map (encode (embedding_model db)) texts) ms)) [] w")
  then show ?thesis
    by (rule_tac x = ms in exI, rule_tac x = w in exI, rule_tac x = points in exI,
        rule_tac x = w2 in exI)
       (simp add: Some len add_texts_batch_def Let_def)
qed

text \<open>
  Claim C5. Under the same two conditions, for \<open>n\<close> texts and \<open>metadatas\<close> absent or of
  length \<open>n\<close>, \<open>add_texts_batch\<close> returns \<open>n\<close> identifiers, pairwise distinct, and
  \<open>get_stats\<close> reports \<open>total_points\<close> larger by exactly \<open>n\<close> than before the call.
\<close>

theorem add_texts_batch_ids_and_count:
  assumes "store_accepts db w texts" and "uuid_supply_fresh env db w"
    and "metadatas = None \<or> (\<exists>ms. metadatas = Some ms \<and> length ms = length texts)"
  shows "\<exists>ids w' st st'.
      add_texts_batch env db texts metadatas w = (Inr ids, w')
    \<and> length ids = length texts
    \<and> distinct ids
    \<and> get_stats db w = Inr st
    \<and> get_stats db w' = Inr st'
    \<and> total_points st' = total_points st + length texts"
proof -
  let ?n = "length texts"
  let ?embs = "map (encode (embedding_model db)) texts"
  from assms(1) obtain c where
    c: "map_of (qdrant w) (collection_name db) = Some c"
       "list_all (\<lambda>t. length (encode (embedding_model db) t) = vp_size (vectors_config c)) texts"
    by (auto simp: store_accepts_def split: option.splits)
  from add_texts_batch_unfold [OF assms(3), where env = env and db = db and w = w] obtain mds w1 points w2 where
    u: "length mds = ?n" "qdrant w1 = qdrant w" "uuid_drawn w1 = uuid_drawn w"
       "batch_points env (zip texts (zip ?embs mds)) [] w1 = (points, w2)"
       "add_texts_batch env db texts metadatas w =
          (case client_upsert db points w2 of
             (Inl e, w3) \<Rightarrow> (Inl e, w3)
           | (Inr u, w3) \<Rightarrow> (Inr (map ps_id points), w3))"
    by blast
  have zlen: "length (zip texts (zip ?embs mds)) = ?n"
    using u(1) by simp
  from batch_points_frame [OF u(4)] have
    f: "map ps_id points = map (uuid4_seq env) [uuid_drawn w ..< uuid_drawn w + ?n]"
       "map ps_vector points = map (\<lambda>z. fst (snd z)) (zip texts (zip ?embs mds))"
       "qdrant w2 = qdrant w"
    using zlen by (simp_all add: u(1) u(2) u(3))
  have vecs: "map ps_vector points = ?embs"
    using u(1) by (simp add: f(2) map_mid_zip)
  have dims: "list_all (\<lambda>p. length (ps_vector p) = vp_size (vectors_config c)) points"
  proof -
    have "\<forall>v \<in> set ?embs. length v = vp_size (vectors_config c)"
      using c(2) by (auto simp: list_all_iff)
    then have "\<forall>v \<in> set (map ps_vector points). length v = vp_size (vectors_config c)"
      by (simp only: vecs)
    then show ?thesis by (simp add: list_all_iff)
  qed
  have c2: "map_of (qdrant w2) (collection_name db) = Some c"
    by (simp add: f(3) c(1))
  from points_of_client_upsert [OF c2 dims] obtain w3 where
    w3: "client_upsert db points w2 = (Inr (), w3)"
        "points_of db w3 = upsert_points (map (sent_point w2) points) (points_of db w2)"
        "w3\<lparr>qdrant := qdrant w2\<rparr> = w2"
    by blast
  have same: "points_of db w2 = points_of db w"
    by (simp add: points_of_def f(3))
  have ids: "map fst (map (sent_point w2) points) = map ps_id points"
    by (simp add: sent_point_def)
  have dist: "distinct (map ps_id points)"
    unfolding f(1) by (rule fresh_distinct [OF assms(2)])
  have disj: "fst ` set (map (sent_point w2) points) \<inter> fst ` set (points_of db w) = {}"
  proof -
    have "set (map ps_id points) \<inter> fst ` set (points_of db w) = {}"
      unfolding f(1) using fresh_not_stored [OF assms(2)] by force
    moreover have "fst ` set (map (sent_point w2) points) = set (map ps_id points)"
      using ids by (metis set_map)
    ultimately show ?thesis by simp
  qed
  have len: "length (points_of db w3) = length (points_of db w) + ?n"
  proof -
    have "distinct (map fst (map (sent_point w2) points))"
      unfolding ids by (rule dist)
    from length_upsert_points [OF this disj]
    have "length (upsert_points (map (sent_point w2) points) (points_of db w))
        = length (points_of db w) + length (map (sent_point w2) points)" .
    moreover have "length points = ?n"
      using f(1) by (metis length_map length_upt add_diff_cancel_left')
    ultimately show ?thesis by (simp add: w3(2) same)
  qed
  have c3: "map_of (qdrant w3) (collection_name db) \<noteq> None"
    using w3(1) c2
    by (auto simp: client_upsert_def upsert_def update_conv' split: if_splits sum.splits)
  then obtain c' where c': "map_of (qdrant w3) (collection_name db) = Some c'"
    by auto
  have res: "add_texts_batch env db texts metadatas w = (Inr (map ps_id points), w3)"
    by (simp add: u(5) w3(1))
  have "length (map ps_id points) = ?n"
    by (simp add: f(1))
  with res dist get_stats_total [OF c(1)] get_stats_total [OF c'] len
  show ?thesis
    by (intro exI [of _ "map ps_id points"] exI [of _ w3]
        exI [of _ "\<lparr>total_points = length (points_of db w),
                         stats_vectors_count = length (points_of db w),
                         stats_status = GREEN\<rparr>"]
        exI [of _ "\<lparr>total_points = length (points_of db w3),
                         stats_vectors_count = length (points_of db w3),
                         stats_status = GREEN\<rparr>"]) simp
qed

theorem add_texts_batch_ids_and_count_witness:
  "store_accepts demo_db demo_world demo_texts
   \<and> uuid_supply_fresh demo_env demo_db demo_world
   \<and> (\<exists>ids w'.
         add_texts_batch demo_env demo_db demo_texts None demo_world = (Inr ids, w')
       \<and> length ids = 2 \<and> distinct ids
       \<and> get_stats demo_db demo_world
           = Inr \<lparr>total_points = 0, stats_vectors_count = 0, stats_status = GREEN\<rparr>
       \<and> (\<exists>st. get_stats demo_db w' = Inr st \<and> total_points st = 2))
   \<and> store_accepts demo_db demo_caller_world demo_texts
   \<and> uuid_supply_fresh demo_env demo_db demo_caller_world
   \<and> (\<exists>ids w'.
         add_texts_batch demo_env demo_db demo_texts (Some [0, 1]) demo_caller_world
           = (Inr ids, w')
       \<and> length ids = 2 \<and> distinct ids
       \<and> (\<exists>st. get_stats demo_db w' = Inr st \<and> total_points st = 2))"
proof -
  have len: "length demo_texts = 2"
    by (simp add: demo_texts_def)
  have st0: "get_stats demo_db demo_world
      = Inr \<lparr>total_points = 0, stats_vectors_count = 0, stats_status = GREEN\<rparr>"
    "get_stats demo_db demo_caller_world
      = Inr \<lparr>total_points = 0, stats_vectors_count = 0, stats_status = GREEN\<rparr>"
    by (simp_all add: get_stats_def get_collection_def demo_db_def demo_world_def
        demo_caller_world_def)
  have a: "\<exists>ids w'.
         add_texts_batch demo_env demo_db demo_texts None demo_world = (Inr ids, w')
       \<and> length ids = 2 \<and> distinct ids
       \<and> get_stats demo_db demo_world
           = Inr \<lparr>total_points = 0, stats_vectors_count = 0, stats_status = GREEN\<rparr>
       \<and> (\<exists>st. get_stats demo_db w' = Inr st \<and> total_points st = 2)"
    using add_texts_batch_ids_and_count [OF demo_store_accepts(1) demo_uuid_fresh(1), of None demo_texts]
    by (auto simp: len st0)
  have b: "\<exists>ids w'.
         add_texts_batch demo_env demo_db demo_texts (Some [0, 1]) demo_caller_world
           = (Inr ids, w')
       \<and> length ids = 2 \<and> distinct ids
       \<and> (\<exists>st. get_stats demo_db w' = Inr st \<and> total_points st = 2)"
    using add_texts_batch_ids_and_count [OF demo_store_accepts(2) demo_uuid_fresh(2), of "Some [0, 1]" demo_texts]
    by (auto simp: len st0)
  show ?thesis
    using a b demo_store_accepts demo_uuid_fresh by blast
qed


lemma demo_keys: "k_timestamp \<noteq> k_text" "k_text \<noteq> k_timestamp"
  by (simp_all add: k_text_def k_timestamp_def pystr_of_eq_iff)

lemma demo_batch_copying:
  "add_texts_batch demo_env demo_db demo_texts None demo_world =
     (Inr [pystr_of ''uuid-'', pystr_of ''uuid-x''],
      demo_world\<lparr>
        qdrant := [(book_knowledge,
                    \<lparr>vectors_config = \<lparr>vp_size = 2, vp_distance = COSINE\<rparr>,
                     stored_points =
                       [(pystr_of ''uuid-'', [5, 1],
                         [(k_timestamp, JStr (pystr_of ''2025-01-01T00:00:00'')),
                          (k_text, JStr (pystr_of ''alpha''))]),
                        (pystr_of ''uuid-x'', [4, 1],
                         [(k_timestamp, JStr (pystr_of ''2025-01-01T00:00:00'')),
                          (k_text, JStr (pystr_of ''beta''))])]\<rparr>)],
        heap := (heap demo_world)(0 :=
                   [(k_timestamp, JStr (pystr_of ''2025-01-01T00:00:00'')),
                    (k_text, JStr (pystr_of ''beta''))]),
        heap_next := 1, uuid_drawn := 2, clock_read := 2\<rparr>)"
  by (simp add: add_texts_batch_def demo_texts_def new_dict_def Let_def uuid4_def datetime_now_def
      dict_set_def dict_get_def PointStruct_def client_upsert_def upsert_def sent_point_def
      demo_keys demo_env_def demo_db_def demo_world_def demo_model_def pystr_of_def)


lemma demo_batch_by_reference:
  "add_texts_batch by_reference_env demo_db demo_texts None demo_world =
     (Inr [pystr_of ''uuid-'', pystr_of ''uuid-x''],
      demo_world\<lparr>
        qdrant := [(book_knowledge,
                    \<lparr>vectors_config = \<lparr>vp_size = 2, vp_distance = COSINE\<rparr>,
                     stored_points =
                       [(pystr_of ''uuid-'', [5, 1],
                         [(k_timestamp, JStr (pystr_of ''2025-01-01T00:00:00'')),
                          (k_text, JStr (pystr_of ''beta''))]),
                        (pystr_of ''uuid-x'', [4, 1],
                         [(k_timestamp, JStr (pystr_of ''2025-01-01T00:00:00'')),
                          (k_text, JStr (pystr_of ''beta''))])]\<rparr>)],
        heap := (heap demo_world)(0 :=
                   [(k_timestamp, JStr (pystr_of ''2025-01-01T00:00:00'')),
                    (k_text, JStr (pystr_of ''beta''))]),
        heap_next := 1, uuid_drawn := 2, clock_read := 2\<rparr>)"
  by (simp add: add_texts_batch_def demo_texts_def new_dict_def Let_def uuid4_def datetime_now_def
      dict_set_def dict_get_def PointStruct_def client_upsert_def upsert_def sent_point_def
      demo_keys by_reference_env_def demo_env_def demo_db_def demo_world_def demo_model_def
      pystr_of_def)

lemma demo_add_text_twice:
  "points_of demo_db
     (snd (add_text demo_env demo_db (pystr_of ''beta'') None
        (snd (add_text demo_env demo_db (pystr_of ''alpha'') None demo_world)))) =
     [(pystr_of ''uuid-'', [5, 1],
       [(k_timestamp, JStr (pystr_of ''2025-01-01T00:00:00'')),
        (k_text, JStr (pystr_of ''alpha''))]),
      (pystr_of ''uuid-x'', [4, 1],
       [(k_timestamp, JStr (pystr_of ''2025-01-01T00:00:01'')),
        (k_text, JStr (pystr_of ''beta''))])]"
  by (simp add: add_text_def new_dict_def Let_def uuid4_def datetime_now_def
      dict_set_def PointStruct_def client_upsert_def upsert_def sent_point_def points_of_def
      demo_keys demo_env_def demo_db_def demo_world_def demo_model_def pystr_of_def)

text \<open>
  Claim C4. \<open>add_texts_batch(["alpha", "beta"])\<close> with \<open>metadatas\<close> absent, on a collection
  that exists and is empty, with a clock that reads \<open>...:00\<close> and then \<open>...:01\<close>. The default
  \<open>[{}] * len(texts)\<close> is one dictionary referenced twice, so the second round finds the
  \<open>timestamp\<close> of the first and keeps it: the second point is stored with the first
  point's timestamp, not the clock's second reading. When \<open>PointStruct\<close> keeps a reference
  to the payload instead of a copy, both points are moreover stored with the text
  \<open>"beta"\<close>. Two calls of \<open>add_text\<close> on the same texts give each point its own
  timestamp.
\<close>

theorem batch_default_metadata_is_one_dictionary:
  "points_of demo_db (snd (add_texts_batch demo_env demo_db demo_texts None demo_world)) =
     [(pystr_of ''uuid-'', [5, 1],
       [(k_timestamp, JStr (pystr_of ''2025-01-01T00:00:00'')),
        (k_text, JStr (pystr_of ''alpha''))]),
      (pystr_of ''uuid-x'', [4, 1],
       [(k_timestamp, JStr (pystr_of ''2025-01-01T00:00:00'')),
        (k_text, JStr (pystr_of ''beta''))])]
   \<and> points_of demo_db
       (snd (add_texts_batch by_reference_env demo_db demo_texts None demo_world)) =
     [(pystr_of ''uuid-'', [5, 1],
       [(k_timestamp, JStr (pystr_of ''2025-01-01T00:00:00'')),
        (k_text, JStr (pystr_of ''beta''))]),
      (pystr_of ''uuid-x'', [4, 1],
       [(k_timestamp, JStr (pystr_of ''2025-01-01T00:00:00'')),
        (k_text, JStr (pystr_of ''beta''))])]
   \<and> now_seq demo_env 1 = pystr_of ''2025-01-01T00:00:01''
   \<and> points_of demo_db
       (snd (add_text demo_env demo_db (pystr_of ''beta'') None
          (snd (add_text demo_env demo_db (pystr_of ''alpha'') None demo_world)))) =
     [(pystr_of ''uuid-'', [5, 1],
       [(k_timestamp, JStr (pystr_of ''2025-01-01T00:00:00'')),
        (k_text, JStr (pystr_of ''alpha''))]),
      (pystr_of ''uuid-x'', [4, 1],
       [(k_timestamp, JStr (pystr_of ''2025-01-01T00:00:01'')),
        (k_text, JStr (pystr_of ''beta''))])]"
  by (simp add: demo_batch_copying demo_batch_by_reference demo_add_text_twice)
     (simp add: points_of_def demo_db_def demo_world_def demo_env_def pystr_of_def)

section \<open>Capturing the screen\<close>

lemma capture_and_extract_world:
  "snd (capture_and_extract env w) = w\<lparr>screenshots := Suc (screenshots w)\<rparr>"
  by (simp add: capture_and_extract_def capture_screenshot_def split: sum.splits)

lemma store_accepts_frame:
  "qdrant w' = qdrant w \<Longrightarrow> store_accepts db w' ts = store_accepts db w ts"
  by (simp add: store_accepts_def)

lemma points_of_frame:
  "qdrant w' = qdrant w \<Longrightarrow> points_of db w' = points_of db w"
  by (simp add: points_of_def)

lemma uuid_supply_fresh_frame:
  "qdrant w' = qdrant w \<Longrightarrow> uuid_drawn w' = uuid_drawn w \<Longrightarrow>
   uuid_supply_fresh env db w' = uuid_supply_fresh env db w"
  by (simp add: uuid_supply_fresh_def points_of_def)

lemma strip_Nil: "strip [] = []"
  by (simp add: strip_def)

lemma demo_captures:
  "capture_and_extract demo_env (api_world demo_ready)
     = (Inr demo_capture, demo_world\<lparr>screenshots := Suc 0\<rparr>)"
  "capture_and_extract short_text_env (api_world demo_ready)
     = (Inr (pystr_of ''   page 7  ''), demo_world\<lparr>screenshots := Suc 0\<rparr>)"
  by (simp_all add: capture_and_extract_def capture_screenshot_def extract_text_from_image_def
      demo_ready_eq demo_env_def short_text_env_def demo_capture_def demo_world_def)

lemma demo_strip:
  "length (strip (pystr_of ''   page 7  '')) = 6"
  "length (strip demo_capture) = 47"
  "length demo_capture = 49"
  by (simp_all add: strip_def py_isspace_def pystr_of_def demo_capture_def)

text \<open>
  Claim C10. \<open>POST /api/capture/full\<close> with the adapter installed, when the screenshot
  and OCR return a text. If the text stripped of surrounding whitespace has fewer than 10
  characters, the answer is \<open>success: false\<close> with "No meaningful text found" and the
  service is as before. Otherwise, when the service accepts the embedding and \<open>uuid4\<close>
  keeps its promise, the collection afterwards is the collection before followed by
  exactly one point whose payload has the text, and the answer is \<open>success: true\<close> with
  \<open>text_length\<close> the length of the extracted text (unstripped).
\<close>

theorem capture_full_screen_stores_meaningful_text:
  assumes "vector_db s = Some db"
    and "capture_and_extract env (api_world s) = (Inr tx, w1)"
  shows
    "(length (strip tx) < 10 \<longrightarrow>
        fst (capture_full_screen env s) =
          \<lparr>status_code = 200,
           json = [(pystr_of ''success'', JBool False),
                   (pystr_of ''message'', JStr (pystr_of ''No meaningful text found''))]\<rparr>
      \<and> qdrant (api_world (snd (capture_full_screen env s))) = qdrant (api_world s))
   \<and> (\<not> length (strip tx) < 10 \<and> store_accepts db (api_world s) [tx] \<and>
       uuid_supply_fresh env db (api_world s) \<longrightarrow>
        fst (capture_full_screen env s) =
          \<lparr>status_code = 200,
           json = [(pystr_of ''success'', JBool True),
                   (pystr_of ''message'',
                    JStr (pystr_of ''Captured '' @ str_nat (length tx)
                          @ pystr_of '' characters'')),
                   (pystr_of ''text_length'', JNum (real (length tx)))]\<rparr>
      \<and> (\<exists>point_id vector payload.
            points_of db (api_world (snd (capture_full_screen env s))) =
              points_of db (api_world s) @ [(point_id, vector, payload)]
          \<and> map_of payload k_text = Some (JStr tx)))"
proof (intro conjI impI)
  assume short: "length (strip tx) < 10"
  have w1: "w1 = (api_world s)\<lparr>screenshots := Suc (screenshots (api_world s))\<rparr>"
    using capture_and_extract_world [of env "api_world s"] assms(2) by simp
  from short assms show "fst (capture_full_screen env s) =
          \<lparr>status_code = 200,
           json = [(pystr_of ''success'', JBool False),
                   (pystr_of ''message'', JStr (pystr_of ''No meaningful text found''))]\<rparr>"
    by (simp add: capture_full_screen_def)
  from short assms show
    "qdrant (api_world (snd (capture_full_screen env s))) = qdrant (api_world s)"
    by (simp add: capture_full_screen_def w1)
next
  assume h: "\<not> length (strip tx) < 10 \<and> store_accepts db (api_world s) [tx] \<and>
       uuid_supply_fresh env db (api_world s)"
  let ?w = "api_world s"
  let ?md = "[(k_source, JStr (pystr_of ''screenshot_full''))]"
  let ?w2 = "snd (new_dict ?md w1)"
  let ?a = "fst (new_dict ?md w1)"
  have w1: "w1 = ?w\<lparr>screenshots := Suc (screenshots ?w)\<rparr>"
    using capture_and_extract_world [of env ?w] assms(2) by simp
  have fr: "qdrant ?w2 = qdrant ?w" "uuid_drawn ?w2 = uuid_drawn ?w"
    by (simp_all add: new_dict_def w1)
  have ne: "tx \<noteq> []"
    using h by (auto simp: strip_Nil)
  have acc: "store_accepts db ?w2 [tx]"
    using h store_accepts_frame [OF fr(1)] by simp
  have fresh: "uuid_supply_fresh env db ?w2"
    using h uuid_supply_fresh_frame [OF fr] by simp
  from add_text_points [OF acc, of env "Some ?a"] obtain w3 where
    w3: "add_text env db tx (Some ?a) ?w2 = (Inr (uuid4_seq env (uuid_drawn ?w2)), w3)"
        "points_of db w3 =
           AList.update (uuid4_seq env (uuid_drawn ?w2))
             (encode (embedding_model db) tx, stamped env ?w2 tx (caller_metadata ?w2 (Some ?a)))
             (points_of db ?w2)"
    by blast
  have res: "capture_full_screen env s =
      (\<lparr>status_code = 200,
        json = [(pystr_of ''success'', JBool True),
                (pystr_of ''message'',
                 JStr (pystr_of ''Captured '' @ str_nat (length tx)
                       @ pystr_of '' characters'')),
                (pystr_of ''text_length'', JNum (real (length tx)))]\<rparr>,
       s\<lparr>api_world := w3\<rparr>)"
    using assms h ne w3(1)
    by (simp add: capture_full_screen_def Let_def split_beta)
  show "fst (capture_full_screen env s) =
          \<lparr>status_code = 200,
           json = [(pystr_of ''success'', JBool True),
                   (pystr_of ''message'',
                    JStr (pystr_of ''Captured '' @ str_nat (length tx)
                          @ pystr_of '' characters'')),
                   (pystr_of ''text_length'', JNum (real (length tx)))]\<rparr>"
    by (simp add: res)
  have notin: "uuid4_seq env (uuid_drawn ?w2) \<notin> fst ` set (points_of db ?w2)"
    using fresh_not_stored [OF fresh, of "uuid_drawn ?w2"] by simp
  have pts: "points_of db w3 = points_of db ?w
      @ [(uuid4_seq env (uuid_drawn ?w2), encode (embedding_model db) tx,
          stamped env ?w2 tx (caller_metadata ?w2 (Some ?a)))]"
    using w3(2) notin points_of_frame [OF fr(1), of db] by (simp add: update_fresh)
  have "map_of (stamped env ?w2 tx (caller_metadata ?w2 (Some ?a))) k_text = Some (JStr tx)"
    by (simp add: stamped_def update_conv')
  with pts show "\<exists>point_id vector payload.
            points_of db (api_world (snd (capture_full_screen env s))) =
              points_of db (api_world s) @ [(point_id, vector, payload)]
          \<and> map_of payload k_text = Some (JStr tx)"
    by (simp add: res)
qed


theorem capture_full_screen_witness:
  "vector_db demo_ready = Some demo_db
   \<and> capture_and_extract short_text_env (api_world demo_ready)
       = (Inr (pystr_of ''   page 7  ''), demo_world\<lparr>screenshots := Suc 0\<rparr>)
   \<and> length (strip (pystr_of ''   page 7  '')) < 10
   \<and> fst (capture_full_screen short_text_env demo_ready) =
        \<lparr>status_code = 200,
         json = [(pystr_of ''success'', JBool False),
                 (pystr_of ''message'', JStr (pystr_of ''No meaningful text found''))]\<rparr>
   \<and> points_of demo_db (api_world (snd (capture_full_screen short_text_env demo_ready))) = []
   \<and> capture_and_extract demo_env (api_world demo_ready)
       = (Inr demo_capture, demo_world\<lparr>screenshots := Suc 0\<rparr>)
   \<and> \<not> length (strip demo_capture) < 10
   \<and> store_accepts demo_db (api_world demo_ready) [demo_capture]
   \<and> uuid_supply_fresh demo_env demo_db (api_world demo_ready)
   \<and> map_of (json (fst (capture_full_screen demo_env demo_ready))) (pystr_of ''text_length'')
       = Some (JNum 49)
   \<and> (\<exists>point_id vector payload.
         points_of demo_db (api_world (snd (capture_full_screen demo_env demo_ready)))
           = [(point_id, vector, payload)]
       \<and> map_of payload k_text = Some (JStr demo_capture))"
proof -
  have r: "vector_db demo_ready = Some demo_db" "api_world demo_ready = demo_world"
    by (simp_all add: demo_ready_eq)
  have short: "length (strip (pystr_of ''   page 7  '')) < 10"
    by (simp add: demo_strip)
  have long: "\<not> length (strip demo_capture) < 10"
    by (simp add: demo_strip)
  have acc: "store_accepts demo_db (api_world demo_ready) [demo_capture]"
    by (simp add: r demo_store_accepts)
  have fresh: "uuid_supply_fresh demo_env demo_db (api_world demo_ready)"
    by (simp add: r demo_uuid_fresh)
  have a: "fst (capture_full_screen short_text_env demo_ready) =
        \<lparr>status_code = 200,
         json = [(pystr_of ''success'', JBool False),
                 (pystr_of ''message'', JStr (pystr_of ''No meaningful text found''))]\<rparr>
     \<and> points_of demo_db (api_world (snd (capture_full_screen short_text_env demo_ready))) = []"
    using capture_full_screen_stores_meaningful_text [OF r(1) demo_captures(2)] short
    by (simp add: points_of_def r demo_world_def demo_db_def)
  have b: "map_of (json (fst (capture_full_screen demo_env demo_ready))) (pystr_of ''text_length'')
       = Some (JNum 49)
     \<and> (\<exists>point_id vector payload.
         points_of demo_db (api_world (snd (capture_full_screen demo_env demo_ready)))
           = [(point_id, vector, payload)]
       \<and> map_of payload k_text = Some (JStr demo_capture))"
    using capture_full_screen_stores_meaningful_text [OF r(1) demo_captures(1)] long acc fresh
    by (simp add: r demo_points_empty demo_strip pystr_of_eq_iff)
  show ?thesis
    using r short long acc fresh a b demo_captures by simp
qed

section \<open>The retrieval-augmented query\<close>

lemma sorted_take_drop:
  assumes "sorted (map f ys)"
  shows "sorted (map f (take k ys)) \<and> (\<forall>h \<in> set (take k ys). \<forall>r \<in> set (drop k ys). f h \<le> f r)"
proof -
  have "map f ys = map f (take k ys) @ map f (drop k ys)"
    by (metis append_take_drop_id map_append)
  with assms have "sorted (map f (take k ys) @ map f (drop k ys))"
    by simp
  then show ?thesis
    by (auto simp: sorted_append)
qed

lemma client_search_top_k:
  assumes "client_search name qv k q = Inr hits"
  shows "\<exists>c. map_of q name = Some c \<and> top_k_nearest qv k c hits"
proof -
  from assms obtain c where c: "map_of q name = Some c"
    by (auto simp: client_search_def split: option.splits)
  let ?scored = "map (\<lambda>p. (score (vp_distance (vectors_config c)) qv (fst (snd p)), p)) (stored_points c)"
  let ?ys = "sort_key (\<lambda>sp. - fst sp) ?scored"
  have hits: "hits = take k ?ys"
    using assms c by (simp add: client_search_def)
  have srt: "sorted (map (\<lambda>sp. - fst sp) hits)
      \<and> (\<forall>h \<in> set hits. \<forall>r \<in> set (drop k ?ys). - fst h \<le> - fst r)"
    unfolding hits by (rule sorted_take_drop) (rule sorted_sort_key)
  have m: "mset (hits @ drop k ?ys) = mset ?scored"
    by (simp only: hits append_take_drop_id mset_sort)
  have len: "length hits = min k (length (stored_points c))"
    by (simp add: hits)
  have cross: "\<forall>h \<in> set hits. \<forall>r \<in> set (drop k ?ys). fst r \<le> fst h"
    using srt by simp
  have "sorted (map (\<lambda>sp. - fst sp) hits)"
    using srt by simp
  then have desc: "sorted (rev (map fst hits))"
    by (induction hits) (auto simp: sorted_append)
  from m len desc cross have "top_k_nearest qv k c hits"
    unfolding top_k_nearest_def by blast
  with c show ?thesis by blast
qed

lemma collect_length: "collect xs = Inr ys \<Longrightarrow> length ys = length xs"
  by (induction xs arbitrary: ys) (auto split: sum.splits)

lemma qa_invoke_returns:
  assumes "qa_invoke env chain q w = (Inr r, wa)"
  shows "\<exists>question c hits docs.
      q = JStr question
    \<and> map_of (qdrant w) (vs_collection_name (vectorstore (chain_retriever chain))) = Some c
    \<and> top_k_nearest
        (embed_query (vs_embeddings (vectorstore (chain_retriever chain))) question)
        (search_k (chain_retriever chain)) c hits
    \<and> collect (map (document_from_scored_point (vectorstore (chain_retriever chain))) hits)
        = Inr docs
    \<and> length docs = length hits
    \<and> llm_reply env (llm_calls w) (prompt_template env (join_contents docs) question)
        = Inr (qa_result r)
    \<and> source_documents r = (if return_source_documents chain then Some docs else None)
    \<and> wa = w\<lparr>llm_calls := Suc (llm_calls w)\<rparr>"
proof -
  from assms obtain question where q: "q = JStr question"
    by (cases q) (simp_all add: qa_invoke_def)
  let ?vs = "vectorstore (chain_retriever chain)"
  from assms q obtain docs where
    docs: "get_relevant_documents (chain_retriever chain) question w = Inr docs"
    by (auto simp: qa_invoke_def split: sum.splits)
  then obtain hits where
    hits: "client_search (vs_collection_name ?vs) (embed_query (vs_embeddings ?vs) question)
             (search_k (chain_retriever chain)) (qdrant w) = Inr hits"
      "collect (map (document_from_scored_point ?vs) hits) = Inr docs"
    by (auto simp: get_relevant_documents_def Let_def split: sum.splits)
  from client_search_top_k [OF hits(1)] obtain c where
    c: "map_of (qdrant w) (vs_collection_name ?vs) = Some c"
       "top_k_nearest (embed_query (vs_embeddings ?vs) question)
          (search_k (chain_retriever chain)) c hits"
    by blast
  have rest: "llm_reply env (llm_calls w) (prompt_template env (join_contents docs) question)
        = Inr (qa_result r)
    \<and> source_documents r = (if return_source_documents chain then Some docs else None)
    \<and> wa = w\<lparr>llm_calls := Suc (llm_calls w)\<rparr>"
    using assms q docs by (auto simp: qa_invoke_def Let_def split: sum.splits)
  from q c hits(2) collect_length [OF hits(2)] rest show ?thesis
    by auto
qed


lemma initialize_components_chain:
  assumes "ready (initialization_status (initialize_components env s))"
  shows "\<exists>l em. load_embeddings env = Inr em
     \<and> qa_chain (initialize_components env s) =
         Some \<lparr>chain_llm = l,
               chain_retriever =
                 \<lparr>vectorstore = \<lparr>vs_collection_name = book_knowledge, vs_embeddings = em,
                                 content_payload_key = k_text\<rparr>,
                  search_k = 3\<rparr>,
               return_source_documents = True\<rparr>"
  using assms
  by (auto simp: initialize_components_def VectorDatabase_cases init_failed_def Let_def
      split: sum.splits)

lemma app_initialize_components_chain:
  assumes "app_qa_chain (fst (app_initialize_components env initial_app w)) = Some chain"
  shows "\<exists>l em. load_embeddings env = Inr em
     \<and> chain = \<lparr>chain_llm = l,
               chain_retriever =
                 \<lparr>vectorstore = \<lparr>vs_collection_name = book_knowledge, vs_embeddings = em,
                                 content_payload_key = k_text\<rparr>,
                  search_k = 3\<rparr>,
               return_source_documents = True\<rparr>"
  using assms
  by (auto simp: app_initialize_components_def VectorDatabase_cases initial_app_def Let_def
      split: sum.splits)

lemma notes_app_chain: "app_qa_chain notes_app = Some notes_chain"
  by (simp add: notes_app_def app_initialize_components_def VectorDatabase_def notes_env_def
      demo_env_def initial_app_def demo_world_def create_collection_if_not_exists_def
      get_collections_def demo_model_def notes_chain_def Let_def)

lemma notes_ready_eq:
  "notes_ready =
     \<lparr>vector_db = Some demo_db, llm = Some \<lparr>model_name = pystr_of ''llama3.1:8b''\<rparr>,
      qa_chain = Some notes_chain, embeddings = Some \<lparr>embed_query = (\<lambda>q. [1, 0])\<rparr>,
      initialization_status = \<lparr>ready = True, message = ready_message\<rparr>,
      chat_history = [], api_world = notes_world\<rparr>"
  by (simp add: notes_ready_def lifetime_def initialize_components_def VectorDatabase_def
      notes_env_def demo_env_def initial_state_def notes_world_def demo_world_def
      create_collection_if_not_exists_def get_collections_def
      demo_db_def demo_model_def notes_chain_def Let_def)

lemma key_facts:
  "k_metadata \<noteq> k_text" "k_metadata \<noteq> k_source" "k_text \<noteq> k_source" "k_source \<noteq> k_text"
  "pystr_of ''_collection_name'' \<noteq> pystr_of ''_id''"
  "pystr_of ''_id'' \<noteq> pystr_of ''_collection_name''"
  by (simp_all add: k_metadata_def k_text_def k_source_def pystr_of_eq_iff)

lemma notes_scores:
  "cosine [1, 0] [0, 1] = 0" "cosine [1, 0] [1, 0] = 1"
  "cosine [1, 0] [- 1, 0] = - 1" "cosine [1, 0] [3 / 5, 4 / 5] = 3 / 5"
  by (simp_all add: cosine_def dot_def)

lemma notes_search:
  "client_search book_knowledge [1, 0] 3 (qdrant notes_world) =
     Inr [(1, note_id ''1'', [1, 0],
           [(k_source, JStr (pystr_of ''test'')),
            (k_text, JStr (pystr_of ''first line'' @ [10] @ pystr_of ''second line''))]),
          (3 / 5, note_id ''2'', [3 / 5, 4 / 5], [(k_text, JStr (pystr_of ''beta''))]),
          (0, note_id ''3'', [0, 1], [(k_text, JStr (pystr_of ''gamma''))])]"
  by (simp add: client_search_def notes_world_def demo_world_def notes_scores)

lemma notes_retrieved:
  "get_relevant_documents (chain_retriever notes_chain) (pystr_of ''x'') notes_world =
     Inr notes_docs"
  by (simp add: get_relevant_documents_def notes_chain_def notes_search Let_def)
     (simp add: document_from_scored_point_def dict_get_def notes_docs_def note_doc_def
        key_facts Let_def)

lemma notes_invoke:
  "qa_invoke notes_env notes_chain (JStr (pystr_of ''x'')) notes_world =
     (Inr \<lparr>qa_result = pystr_of ''mitochondria'', source_documents = Some notes_docs\<rparr>,
      notes_world\<lparr>llm_calls := Suc 0\<rparr>)"
  by (simp add: qa_invoke_def notes_retrieved Let_def)
     (simp add: notes_env_def demo_env_def notes_chain_def notes_world_def demo_world_def)

lemma notes_answer:
  "fst (handle_query notes_env notes_app (pystr_of ''x'') notes_world) =
     pystr_of ''mitochondria'' @ [10, 10, 128218] @ pystr_of '' Sources:'' @ [10, 10]
     @ pystr_of ''1. first line second line...'' @ [10] @ pystr_of ''2. beta...''"
  by (simp add: handle_query_def notes_app_chain notes_invoke)
     (simp add: notes_docs_def note_doc_def numbered_snippet_def replace_newlines_def
        enumerate_eq_zip upt_rec pystr_of_def)

lemma notes_query:
  "query notes_env (Inr (JObj x_question)) notes_ready =
     (Inr \<lparr>status_code = 200,
       json = [(pystr_of ''response'', JStr (pystr_of ''mitochondria'')),
               (pystr_of ''sources'',
                JArr [JObj [(pystr_of ''content'',
                             JStr (pystr_of ''first line'' @ [10] @ pystr_of ''second line'')),
                            (k_metadata, JObj (doc_metadata (note_doc ''1'' [])))],
                      JObj [(pystr_of ''content'', JStr (pystr_of ''beta'')),
                            (k_metadata, JObj (doc_metadata (note_doc ''2'' [])))]]),
               (pystr_of ''success'', JBool True)]\<rparr>,
      notes_ready\<lparr>api_world := notes_world\<lparr>llm_calls := Suc 0\<rparr>,
        chat_history :=
          [\<lparr>role = pystr_of ''user'', content = JStr (pystr_of ''x'')\<rparr>,
           \<lparr>role = pystr_of ''assistant'', content = JStr (pystr_of ''mitochondria'')\<rparr>]\<rparr>)"
  by (simp add: query_def notes_ready_eq x_question_def dict_get_def notes_invoke Let_def
      format_sources_def source_entry_def notes_docs_def note_doc_def length_pystr_of)
     (simp add: pystr_of_def)

text \<open>
  Claim C1, as amended. Both query paths are built with a retriever of \<open>k = 3\<close> and answer a
  question with one call of the chain, so: the documents are made from the 3 stored records
  nearest to the question under the metric of the collection (all when fewer are stored),
  by decreasing score, each holding a text string and, as metadata, a dictionary or
  nothing, and the language model is called exactly once. In the API (\<open>POST /api/query\<close>,
  a state of a process lifetime, answer 200) the request body is a JSON object and the
  result carries at most 2 source entries, the first two documents, each with \<open>content\<close>
  the first at most 150 characters of the document and with its metadata. In the menu-bar
  \<open>handle_query\<close> (the app as \<open>initialize_components\<close> built it, the chain returning) the
  result is one text: the answer, and when documents were retrieved a "Sources" header and
  at most 2 numbered snippets, each the first at most 150 characters of the document with
  every newline replaced by a blank, followed by "..."; no metadata is part of it.
\<close>

theorem rag_query_retrieves_three_cites_two:
  assumes "s = lifetime env w before after"
    and "app = fst (app_initialize_components env initial_app w0)"
  shows
    "(http_status (fst (query env request_json s)) = 200 \<longrightarrow>
       (\<exists>data question em c hits docs answer.
           request_json = Inr (JObj data)
         \<and> dict_get data k_query (JStr []) = JStr question
         \<and> load_embeddings env = Inr em
         \<and> map_of (qdrant (api_world s)) book_knowledge = Some c
         \<and> top_k_nearest (embed_query em question) 3 c hits
         \<and> collect (map (document_from_scored_point
                            \<lparr>vs_collection_name = book_knowledge, vs_embeddings = em,
                             content_payload_key = k_text\<rparr>) hits) = Inr docs
         \<and> length docs \<le> 3
         \<and> llm_reply env (llm_calls (api_world s))
               (prompt_template env (join_contents docs) question) = Inr answer
         \<and> api_world (snd (query env request_json s))
             = (api_world s)\<lparr>llm_calls := Suc (llm_calls (api_world s))\<rparr>
         \<and> fst (query env request_json s) =
             Inr \<lparr>status_code = 200,
                  json =
                    [(pystr_of ''response'', JStr answer),
                     (pystr_of ''sources'',
                      JArr (map (\<lambda>d. JObj [(pystr_of ''content'',
                                            JStr (take 150 (page_content d))),
                                           (k_metadata, JObj (doc_metadata d))])
                              (take 2 docs))),
                     (pystr_of ''success'', JBool True)]\<rparr>
         \<and> length (take 2 docs) \<le> 2
         \<and> (\<forall>d \<in> set docs. length (take 150 (page_content d)) \<le> 150)))
   \<and> (app_qa_chain app = Some chain \<and>
       qa_invoke env chain (JStr question) wm = (Inr r, wa) \<longrightarrow>
       (\<exists>em c hits docs answer.
           load_embeddings env = Inr em
         \<and> map_of (qdrant wm) book_knowledge = Some c
         \<and> top_k_nearest (embed_query em question) 3 c hits
         \<and> collect (map (document_from_scored_point
                            \<lparr>vs_collection_name = book_knowledge, vs_embeddings = em,
                             content_payload_key = k_text\<rparr>) hits) = Inr docs
         \<and> length docs \<le> 3
         \<and> llm_reply env (llm_calls wm)
               (prompt_template env (join_contents docs) question) = Inr answer
         \<and> snd (handle_query env app question wm) = wm\<lparr>llm_calls := Suc (llm_calls wm)\<rparr>
         \<and> fst (handle_query env app question wm) =
             answer
             @ (if docs = [] then []
                else [10, 10, 128218] @ pystr_of '' Sources:'' @ [10]
                     @ concat (map (\<lambda>p. [10] @ str_nat (fst p) @ pystr_of ''. ''
                                        @ map (\<lambda>c. if c = 10 then 32 else c)
                                            (take 150 (page_content (snd p)))
                                        @ pystr_of ''...'')
                                 (enumerate 1 (take 2 docs))))
         \<and> length (enumerate 1 (take 2 docs)) \<le> 2))"
proof (intro conjI impI)
  assume ok: "http_status (fst (query env request_json s)) = 200"
  from query_200 [OF ok] obtain data chain r wa where
    q: "request_json = Inr (JObj data)"
       "ready (initialization_status s)" "qa_chain s = Some chain"
       "qa_invoke env chain (dict_get data k_query (JStr [])) (api_world s) = (Inr r, wa)"
       "query env request_json s =
          (Inr \<lparr>status_code = 200,
                json = [(pystr_of ''response'', JStr (qa_result r)),
                        (pystr_of ''sources'', JArr (format_sources r)),
                        (pystr_of ''success'', JBool True)]\<rparr>,
           s\<lparr>api_world := wa,
             chat_history :=
               chat_history s
               @ [\<lparr>role = pystr_of ''user'', content = dict_get data k_query (JStr [])\<rparr>,
                  \<lparr>role = pystr_of ''assistant'', content = JStr (qa_result r)\<rparr>]\<rparr>)"
    by blast
  let ?s1 = "initialize_components env (serve env before (initial_state w))"
  have "ready (initialization_status ?s1)"
    using q(2) by (simp add: assms(1) lifetime_def serve_globals)
  from initialize_components_chain [OF this] obtain l em where
    em: "load_embeddings env = Inr em"
        "qa_chain ?s1 =
           Some \<lparr>chain_llm = l,
                 chain_retriever =
                   \<lparr>vectorstore = \<lparr>vs_collection_name = book_knowledge, vs_embeddings = em,
                                   content_payload_key = k_text\<rparr>,
                    search_k = 3\<rparr>,
                 return_source_documents = True\<rparr>"
    by blast
  have chain: "chain = \<lparr>chain_llm = l,
                 chain_retriever =
                   \<lparr>vectorstore = \<lparr>vs_collection_name = book_knowledge, vs_embeddings = em,
                                   content_payload_key = k_text\<rparr>,
                    search_k = 3\<rparr>,
                 return_source_documents = True\<rparr>"
    using q(3) em(2) by (simp add: assms(1) lifetime_def serve_globals)
  from qa_invoke_returns [OF q(4)] obtain question c hits docs where
    r: "dict_get data k_query (JStr []) = JStr question"
       "map_of (qdrant (api_world s)) book_knowledge = Some c"
       "top_k_nearest (embed_query em question) 3 c hits"
       "collect (map (document_from_scored_point
                        \<lparr>vs_collection_name = book_knowledge, vs_embeddings = em,
                         content_payload_key = k_text\<rparr>) hits) = Inr docs"
       "length docs = length hits"
       "llm_reply env (llm_calls (api_world s))
          (prompt_template env (join_contents docs) question) = Inr (qa_result r)"
       "source_documents r = Some docs"
       "wa = (api_world s)\<lparr>llm_calls := Suc (llm_calls (api_world s))\<rparr>"
    unfolding chain by auto
  have len: "length docs \<le> 3"
    using r(3) r(5) by (auto simp: top_k_nearest_def)
  have src: "format_sources r =
      map (\<lambda>d. JObj [(pystr_of ''content'', JStr (take 150 (page_content d))),
                     (k_metadata, JObj (doc_metadata d))]) (take 2 docs)"
    by (auto simp: format_sources_def r(7) source_entry_def)
  have wq: "api_world (snd (query env request_json s)) = wa"
    by (simp add: q(5))
  have fq: "fst (query env request_json s) =
      Inr \<lparr>status_code = 200,
           json = [(pystr_of ''response'', JStr (qa_result r)),
                   (pystr_of ''sources'', JArr (format_sources r)),
                   (pystr_of ''success'', JBool True)]\<rparr>"
    by (simp add: q(5))
  show "\<exists>data question em c hits docs answer.
           request_json = Inr (JObj data)
         \<and> dict_get data k_query (JStr []) = JStr question
         \<and> load_embeddings env = Inr em
         \<and> map_of (qdrant (api_world s)) book_knowledge = Some c
         \<and> top_k_nearest (embed_query em question) 3 c hits
         \<and> collect (map (document_from_scored_point
                            \<lparr>vs_collection_name = book_knowledge, vs_embeddings = em,
                             content_payload_key = k_text\<rparr>) hits) = Inr docs
         \<and> length docs \<le> 3
         \<and> llm_reply env (llm_calls (api_world s))
               (prompt_template env (join_contents docs) question) = Inr answer
         \<and> api_world (snd (query env request_json s))
             = (api_world s)\<lparr>llm_calls := Suc (llm_calls (api_world s))\<rparr>
         \<and> fst (query env request_json s) =
             Inr \<lparr>status_code = 200,
                  json =
                    [(pystr_of ''response'', JStr answer),
                     (pystr_of ''sources'',
                      JArr (map (\<lambda>d. JObj [(pystr_of ''content'',
                                            JStr (take 150 (page_content d))),
                                           (k_metadata, JObj (doc_metadata d))])
                              (take 2 docs))),
                     (pystr_of ''success'', JBool True)]\<rparr>
         \<and> length (take 2 docs) \<le> 2
         \<and> (\<forall>d \<in> set docs. length (take 150 (page_content d)) \<le> 150)"
    using q(1) r(1) em(1) r(2) r(3) r(4) len r(6) wq r(8) fq src
    by (intro exI [of _ data] exI [of _ question] exI [of _ em] exI [of _ c] exI [of _ hits]
        exI [of _ docs] exI [of _ "qa_result r"]) simp
next
  assume a: "app_qa_chain app = Some chain \<and>
       qa_invoke env chain (JStr question) wm = (Inr r, wa)"
  from app_initialize_components_chain [of env w0 chain] a assms(2) obtain l em where
    em: "load_embeddings env = Inr em"
        "chain = \<lparr>chain_llm = l,
                 chain_retriever =
                   \<lparr>vectorstore = \<lparr>vs_collection_name = book_knowledge, vs_embeddings = em,
                                   content_payload_key = k_text\<rparr>,
                    search_k = 3\<rparr>,
                 return_source_documents = True\<rparr>"
    by auto
  from a have inv: "qa_invoke env chain (JStr question) wm = (Inr r, wa)"
    by simp
  from qa_invoke_returns [OF inv] obtain c hits docs where
    r: "map_of (qdrant wm) book_knowledge = Some c"
       "top_k_nearest (embed_query em question) 3 c hits"
       "collect (map (document_from_scored_point
                        \<lparr>vs_collection_name = book_knowledge, vs_embeddings = em,
                         content_payload_key = k_text\<rparr>) hits) = Inr docs"
       "length docs = length hits"
       "llm_reply env (llm_calls wm)
          (prompt_template env (join_contents docs) question) = Inr (qa_result r)"
       "source_documents r = Some docs"
       "wa = wm\<lparr>llm_calls := Suc (llm_calls wm)\<rparr>"
    unfolding em(2) by auto
  have len: "length docs \<le> 3"
    using r(2) r(4) by (auto simp: top_k_nearest_def)
  have num: "numbered_snippet =
      (\<lambda>p. [10] @ str_nat (fst p) @ pystr_of ''. ''
            @ map (\<lambda>c. if c = 10 then 32 else c) (take 150 (page_content (snd p)))
            @ pystr_of ''...'')"
    by (rule ext) (simp add: numbered_snippet_def replace_newlines_def Let_def)
  have res: "handle_query env app question wm =
      (qa_result r
        @ (if docs = [] then []
           else [10, 10, 128218] @ pystr_of '' Sources:'' @ [10]
                @ concat (map numbered_snippet (enumerate 1 (take 2 docs)))),
       wa)"
    using a r(6) by (simp add: handle_query_def)
  show "\<exists>em c hits docs answer.
           load_embeddings env = Inr em
         \<and> map_of (qdrant wm) book_knowledge = Some c
         \<and> top_k_nearest (embed_query em question) 3 c hits
         \<and> collect (map (document_from_scored_point
                            \<lparr>vs_collection_name = book_knowledge, vs_embeddings = em,
                             content_payload_key = k_text\<rparr>) hits) = Inr docs
         \<and> length docs \<le> 3
         \<and> llm_reply env (llm_calls wm)
               (prompt_template env (join_contents docs) question) = Inr answer
         \<and> snd (handle_query env app question wm) = wm\<lparr>llm_calls := Suc (llm_calls wm)\<rparr>
         \<and> fst (handle_query env app question wm) =
             answer
             @ (if docs = [] then []
                else [10, 10, 128218] @ pystr_of '' Sources:'' @ [10]
                     @ concat (map (\<lambda>p. [10] @ str_nat (fst p) @ pystr_of ''. ''
                                        @ map (\<lambda>c. if c = 10 then 32 else c)
                                            (take 150 (page_content (snd p)))
                                        @ pystr_of ''...'')
                                 (enumerate 1 (take 2 docs))))
         \<and> length (enumerate 1 (take 2 docs)) \<le> 2"
    using em(1) r(1) r(2) r(3) len r(5) r(7)
    by (intro exI [of _ em] exI [of _ c] exI [of _ hits] exI [of _ docs]
        exI [of _ "qa_result r"]) (simp add: res num)
qed


theorem rag_query_witness:
  "notes_ready = lifetime notes_env notes_world [] []
   \<and> notes_app = fst (app_initialize_components notes_env initial_app demo_world)
   \<and> http_status (fst (query notes_env (Inr (JObj x_question)) notes_ready)) = 200
   \<and> (\<exists>(docs :: document list) answer.
         length docs \<le> 3
       \<and> fst (query notes_env (Inr (JObj x_question)) notes_ready) =
           Inr \<lparr>status_code = 200,
                json =
                  [(pystr_of ''response'', JStr answer),
                   (pystr_of ''sources'',
                    JArr (map (\<lambda>d. JObj [(pystr_of ''content'',
                                          JStr (take 150 (page_content d))),
                                         (k_metadata, JObj (doc_metadata d))])
                            (take 2 docs))),
                   (pystr_of ''success'', JBool True)]\<rparr>)
   \<and> llm_calls (api_world (snd (query notes_env (Inr (JObj x_question)) notes_ready))) = 1
   \<and> app_qa_chain notes_app = Some notes_chain
   \<and> qa_invoke notes_env notes_chain (JStr (pystr_of ''x'')) notes_world =
       (Inr \<lparr>qa_result = pystr_of ''mitochondria'', source_documents = Some notes_docs\<rparr>,
        notes_world\<lparr>llm_calls := Suc 0\<rparr>)
   \<and> (\<exists>(docs :: document list) answer.
         length docs \<le> 3
       \<and> fst (handle_query notes_env notes_app (pystr_of ''x'') notes_world) =
           answer
           @ (if docs = [] then []
              else [10, 10, 128218] @ pystr_of '' Sources:'' @ [10]
                   @ concat (map (\<lambda>p. [10] @ str_nat (fst p) @ pystr_of ''. ''
                                      @ map (\<lambda>c. if c = 10 then 32 else c)
                                          (take 150 (page_content (snd p)))
                                      @ pystr_of ''...'')
                               (enumerate 1 (take 2 docs)))))
   \<and> llm_calls (snd (handle_query notes_env notes_app (pystr_of ''x'') notes_world)) = 1"
proof -
  have ok: "http_status (fst (query notes_env (Inr (JObj x_question)) notes_ready)) = 200"
    by (simp add: notes_query)
  have w0: "llm_calls (api_world notes_ready) = 0" "llm_calls notes_world = 0"
    by (simp_all add: notes_ready_eq notes_world_def demo_world_def)
  note inst = rag_query_retrieves_three_cites_two [OF notes_ready_def notes_app_def,
      where request_json = "Inr (JObj x_question)" and chain = notes_chain
        and question = "pystr_of ''x''" and wm = notes_world
        and r = "\<lparr>qa_result = pystr_of ''mitochondria'', source_documents = Some notes_docs\<rparr>"
        and wa = "notes_world\<lparr>llm_calls := Suc 0\<rparr>"]
  note api = inst [THEN conjunct1, THEN mp, OF ok]
  note menu = inst [THEN conjunct2, THEN mp, OF conjI [OF notes_app_chain notes_invoke]]
  have a: "\<exists>(docs :: document list) answer.
         length docs \<le> 3
       \<and> fst (query notes_env (Inr (JObj x_question)) notes_ready) =
           Inr \<lparr>status_code = 200,
                json =
                  [(pystr_of ''response'', JStr answer),
                   (pystr_of ''sources'',
                    JArr (map (\<lambda>d. JObj [(pystr_of ''content'',
                                          JStr (take 150 (page_content d))),
                                         (k_metadata, JObj (doc_metadata d))])
                            (take 2 docs))),
                   (pystr_of ''success'', JBool True)]\<rparr>"
    using api by (elim exE conjE) (intro exI conjI, assumption+)
  have "api_world (snd (query notes_env (Inr (JObj x_question)) notes_ready))
      = (api_world notes_ready)\<lparr>llm_calls := Suc (llm_calls (api_world notes_ready))\<rparr>"
    using api by (elim exE conjE)
  then have a2:
    "llm_calls (api_world (snd (query notes_env (Inr (JObj x_question)) notes_ready))) = 1"
    by (simp add: w0)
  have b: "\<exists>(docs :: document list) answer.
         length docs \<le> 3
       \<and> fst (handle_query notes_env notes_app (pystr_of ''x'') notes_world) =
           answer
           @ (if docs = [] then []
              else [10, 10, 128218] @ pystr_of '' Sources:'' @ [10]
                   @ concat (map (\<lambda>p. [10] @ str_nat (fst p) @ pystr_of ''. ''
                                      @ map (\<lambda>c. if c = 10 then 32 else c)
                                          (take 150 (page_content (snd p)))
                                      @ pystr_of ''...'')
                               (enumerate 1 (take 2 docs))))"
    using menu by (elim exE conjE) (intro exI conjI, assumption+)
  have "snd (handle_query notes_env notes_app (pystr_of ''x'') notes_world)
      = notes_world\<lparr>llm_calls := Suc (llm_calls notes_world)\<rparr>"
    using menu by (elim exE conjE)
  then have b2:
    "llm_calls (snd (handle_query notes_env notes_app (pystr_of ''x'') notes_world)) = 1"
    by (simp add: w0)
  show ?thesis
    using ok a a2 b b2 notes_app_chain notes_invoke notes_ready_def notes_app_def
    by (intro conjI) assumption+
qed


text \<open>
  Claim C1 as stated fails on \<open>handle_query\<close>. The store holds four notes in a collection
  compared by cosine; the question is embedded as \<open>[1, 0]\<close>, so the scores of the notes are
  \<open>1\<close>, \<open>3/5\<close>, \<open>0\<close> and \<open>-1\<close>, all different. The nearest note is "first line" and "second
  line" separated by a newline, with a \<open>source\<close> entry in its payload. The answer lists two
  snippets; the text returned contains neither the first 150 characters of that note (it
  has a blank where the note has the newline) nor the note's metadata (its id occurs
  nowhere in the text).
\<close>

theorem handle_query_snippet_counterexample:
  "vp_distance (vectors_config (the (map_of (qdrant notes_world) book_knowledge))) = COSINE
   \<and> map (\<lambda>p. score COSINE [1, 0] (fst (snd p)))
       (stored_points (the (map_of (qdrant notes_world) book_knowledge)))
       = [0, 1, - 1, 3 / 5]
   \<and> get_relevant_documents (chain_retriever notes_chain) (pystr_of ''x'') notes_world =
       Inr [note_doc ''1'' (pystr_of ''first line'' @ [10] @ pystr_of ''second line''),
            note_doc ''2'' (pystr_of ''beta''),
            note_doc ''3'' (pystr_of ''gamma'')]
   \<and> app_qa_chain notes_app = Some notes_chain
   \<and> fst (handle_query notes_env notes_app (pystr_of ''x'') notes_world) =
       pystr_of ''mitochondria'' @ [10, 10, 128218] @ pystr_of '' Sources:'' @ [10, 10]
       @ pystr_of ''1. first line second line...'' @ [10] @ pystr_of ''2. beta...''
   \<and> \<not> sublist (take 150 (pystr_of ''first line'' @ [10] @ pystr_of ''second line''))
           (fst (handle_query notes_env notes_app (pystr_of ''x'') notes_world))
   \<and> \<not> sublist (note_id ''1'')
           (fst (handle_query notes_env notes_app (pystr_of ''x'') notes_world))"
proof -
  have m: "vp_distance (vectors_config (the (map_of (qdrant notes_world) book_knowledge)))
      = COSINE"
    by (simp add: notes_world_def demo_world_def)
  have sc: "map (\<lambda>p. score COSINE [1, 0] (fst (snd p)))
       (stored_points (the (map_of (qdrant notes_world) book_knowledge)))
       = [0, 1, - 1, 3 / 5]"
    by (simp add: notes_world_def demo_world_def notes_scores)
  have a: "\<not> sublist (take 150 (pystr_of ''first line'' @ [10] @ pystr_of ''second line''))
           (fst (handle_query notes_env notes_app (pystr_of ''x'') notes_world))"
    unfolding notes_answer by (simp add: pystr_of_def sublist_Cons_right prefix_Cons)
  have b: "\<not> sublist (note_id ''1'')
           (fst (handle_query notes_env notes_app (pystr_of ''x'') notes_world))"
    unfolding notes_answer
    by (simp add: note_id_def pystr_of_def sublist_Cons_right prefix_Cons)
  show ?thesis
    using m sc a b notes_retrieved notes_app_chain notes_answer
    by (simp add: notes_docs_def)
qed

end
